theory Spec2Isabelle
  imports Complex_Main
begin

section \<open>The ICMP socket opener of \<^verbatim>\<open>src/native/ping.c\<close>\<close>

text \<open>
  The addon is one C file. Its functions call into three libraries that are not part of
  the repository: the C library (\<^verbatim>\<open>socket\<close>, \<^verbatim>\<open>setsockopt\<close>, \<^verbatim>\<open>bind\<close>,
  \<^verbatim>\<open>close\<close>, \<^verbatim>\<open>inet_pton\<close>, \<^verbatim>\<open>if_nametoindex\<close>), libuv (\<^verbatim>\<open>uv_strerror\<close>, \<^verbatim>\<open>uv_err_name\<close>,
  \<^verbatim>\<open>uv_translate_sys_error\<close>) and N-API. What these calls return is a parameter of the
  model (the record \<open>env\<close>); what the C code does with the results is translated
  function by function. The mutable state the code touches (the C \<^verbatim>\<open>errno\<close>, the pending
  JavaScript exception, the process's open descriptors, the heap block of the request,
  the work queue) is the record \<open>world\<close>, passed through every function together with a
  trace of the externally visible operations in the order they happen.
\<close>

subsection \<open>Values\<close>

type_synonym napi_status = int

definition napi_ok :: napi_status where "napi_ok = 0"
definition napi_invalid_arg :: napi_status where "napi_invalid_arg = 1"
definition napi_pending_exception :: napi_status where "napi_pending_exception = 10"

datatype napi_valuetype =
  napi_undefined | napi_null | napi_boolean | napi_number | napi_string
  | napi_symbol | napi_object | napi_function | napi_external | napi_bigint

datatype error_class = Error | TypeError

text \<open>
  A JavaScript number is a double: a finite value (a rational here), a NaN or an
  infinity.
\<close>

datatype js_number = Finite rat | NaN | Infinity | Minus_Infinity

text \<open>
  A string the addon hands to N-API is a C string in an encoding:
  \<^verbatim>\<open>napi_create_string_latin1\<close> reads its bytes as Latin-1, \<^verbatim>\<open>napi_throw_error\<close> and
  \<^verbatim>\<open>napi_throw_type_error\<close> read their message as UTF-8. The model keeps the bytes and
  the encoding they are read in.
\<close>

datatype js_text = Latin1 string | Utf8 string

text \<open>
  JavaScript values as far as the addon sees them. A string argument is its list of
  UTF-16 code units. An error object carries its class, its \<^verbatim>\<open>code\<close> property (when
  one was given; the addon makes it with \<^verbatim>\<open>napi_create_string_latin1\<close>), its message,
  and the two named properties the addon may set on it: \<^verbatim>\<open>errno\<close> (the number made by
  \<^verbatim>\<open>napi_create_uint32\<close>) and \<^verbatim>\<open>syscall\<close> (made by \<^verbatim>\<open>napi_create_string_latin1\<close>). A C
  \<^verbatim>\<open>napi_value\<close> is a \<open>js_value option\<close>: \<open>None\<close> is the \<^verbatim>\<open>NULL\<close> handle.
\<close>

datatype js_value =
  JS_undefined
  | JS_null
  | JS_boolean bool
  | JS_number js_number
  | JS_string "nat list"
  | JS_symbol
  | JS_object
  | JS_function nat
  | JS_error error_class "string option" js_text "int option" "string option"

type_synonym napi_value = "js_value option"

fun js_typeof :: "js_value \<Rightarrow> napi_valuetype" where
  "js_typeof JS_undefined = napi_undefined"
| "js_typeof JS_null = napi_null"
| "js_typeof (JS_boolean b) = napi_boolean"
| "js_typeof (JS_number n) = napi_number"
| "js_typeof (JS_string s) = napi_string"
| "js_typeof JS_symbol = napi_symbol"
| "js_typeof JS_object = napi_object"
| "js_typeof (JS_function f) = napi_function"
| "js_typeof (JS_error c code msg eno sc) = napi_object"

datatype platform = Linux | Apple | Other_platform

datatype protocol = IPPROTO_ICMP | IPPROTO_ICMPV6

text \<open>The socket options the code sets, each with its level implied and its value.\<close>

datatype sockopt =
  SO_BINDTODEVICE string nat
  | IP_BOUND_IF int
  | IPV6_BOUND_IF int

text \<open>
  The union of \<^verbatim>\<open>sockaddr\<close>, \<^verbatim>\<open>sockaddr_in\<close> and \<^verbatim>\<open>sockaddr_in6\<close>: the family they share
  and the address bytes (\<^verbatim>\<open>sin_addr\<close> or \<^verbatim>\<open>sin6_addr\<close>) that \<^verbatim>\<open>inet_pton\<close> writes.
\<close>

record sockaddr =
  sa_family :: int
  sin_addr :: "nat list"

text \<open>
  \<^verbatim>\<open>struct _open_data\<close>; the field \<^verbatim>\<open>__x\<close> of the source is \<open>d_x\<close>. A pointer that may be
  \<^verbatim>\<open>NULL\<close> is an option.
\<close>

datatype napi_async_work = Async_work

record open_data =
  d_async_work :: "napi_async_work option"
  d_callback_ref :: "js_value option"
  d_sockaddr_size :: nat
  d_sockaddr :: sockaddr
  d_interface_length :: nat
  d_interface :: string
  d_syscall :: "string option"
  d_errno :: int
  d_fd :: int

subsection \<open>The world and the environment\<close>

datatype event =
  E_socket int protocol int
  | E_setsockopt int sockopt int
  | E_if_nametoindex string int
  | E_bind int sockaddr nat int
  | E_close int
  | E_malloc
  | E_free
  | E_create_reference js_value
  | E_delete_reference
  | E_create_async_work
  | E_queue_async_work
  | E_delete_async_work
  | E_call_function js_value "napi_value list"
  | E_throw js_value

record world =
  errno :: int
  pending :: "js_value option"
  open_fds :: "int set"
  heap :: "open_data option"
  queued :: bool
  memory_fault :: bool
  trace :: "event list"

text \<open>
  The environment: the platform the file is compiled for, the constants of its system
  headers, and the results of the library calls. A system call's result is the pair of
  its return value and the value of \<^verbatim>\<open>errno\<close> after it. \<open>napi_status_at\<close> gives the status
  each N-API call returns, by the source line of the call. \<open>callback_throws\<close> is the
  exception the JavaScript callback raises when it is called, if any; \<open>async_status\<close> is
  the status the work queue hands to the completion function.
\<close>

record env =
  platform :: platform
  IFNAMSIZ :: nat
  AF_INET :: int
  AF_INET6 :: int
  EAFNOSUPPORT :: int
  inet_pton :: "int \<Rightarrow> string \<Rightarrow> int \<times> int \<times> nat list"
  sys_socket :: "int \<Rightarrow> protocol \<Rightarrow> int \<times> int"
  sys_setsockopt :: "int \<Rightarrow> sockopt \<Rightarrow> int \<times> int"
  sys_if_nametoindex :: "string \<Rightarrow> int \<times> int"
  sys_bind :: "int \<Rightarrow> sockaddr \<Rightarrow> nat \<Rightarrow> int \<times> int"
  sys_close :: "int \<Rightarrow> int \<times> int"
  uv_translate_sys_error :: "int \<Rightarrow> int"
  uv_strerror :: "int \<Rightarrow> string option"
  uv_err_name :: "int \<Rightarrow> string option"
  napi_status_at :: "nat \<Rightarrow> napi_status"
  napi_error_message :: "string option"
  callback_throws :: "js_value option"
  async_status :: napi_status

definition log_event :: "event \<Rightarrow> world \<Rightarrow> world" where
  "log_event e w = w\<lparr>trace := trace w @ [e]\<rparr>"

subsection \<open>C strings and formatting\<close>

definition NUL :: char where "NUL = CHR 0x00"

text \<open>The C string held in a buffer: the bytes before the first terminator.\<close>

definition cstring :: "string \<Rightarrow> string" where
  "cstring buf = takeWhile (\<lambda>c. c \<noteq> NUL) buf"

definition bzero :: "nat \<Rightarrow> string" where
  "bzero n = replicate n NUL"

text \<open>
  \<^verbatim>\<open>memcpy(dst, src, n)\<close> on two arrays: \<open>None\<close> when it would read or write past the end
  of either.
\<close>

definition memcpy :: "string \<Rightarrow> string \<Rightarrow> nat \<Rightarrow> string option" where
  "memcpy dst src n =
     (if n \<le> length dst \<and> n \<le> length src then Some (take n src @ drop n dst) else None)"

definition digit_char :: "nat \<Rightarrow> char" where
  "digit_char d = char_of (48 + d)"

fun show_nat :: "nat \<Rightarrow> string" where
  "show_nat n = (if n < 10 then [digit_char n] else show_nat (n div 10) @ [digit_char (n mod 10)])"

text \<open>The conversion \<^verbatim>\<open>%d\<close>.\<close>

definition show_int :: "int \<Rightarrow> string" where
  "show_int i = (if i < 0 then CHR ''-'' # show_nat (nat (- i)) else show_nat (nat i))"

declare show_nat.simps [simp del]

text \<open>\<^verbatim>\<open>snprintf\<close> into a buffer of \<open>n\<close> bytes keeps at most \<open>n - 1\<close> characters.\<close>

definition snprintf :: "nat \<Rightarrow> string \<Rightarrow> string" where
  "snprintf n s = take (n - 1) s"

subsection \<open>N-API primitives\<close>

text \<open>
  The throwing primitives (\<^verbatim>\<open>napi_throw\<close>, \<^verbatim>\<open>napi_throw_error\<close>, \<^verbatim>\<open>napi_throw_type_error\<close>)
  make an exception pending when they return \<^verbatim>\<open>napi_ok\<close>; N-API refuses them while another
  exception is pending. The source ignores their status.
\<close>

definition napi_throw :: "env \<Rightarrow> nat \<Rightarrow> js_value \<Rightarrow> world \<Rightarrow> world" where
  "napi_throw env line e w =
     (if napi_status_at env line = napi_ok \<and> pending w = None
      then log_event (E_throw e) (w\<lparr>pending := Some e\<rparr>)
      else w)"

text \<open>
  \<^verbatim>\<open>napi_is_exception_pending\<close> at a source line: its status and the flag it stores (the
  flag keeps its initial value, false, when the call fails).
\<close>

definition napi_is_exception_pending :: "env \<Rightarrow> nat \<Rightarrow> world \<Rightarrow> napi_status \<times> bool" where
  "napi_is_exception_pending env line w =
     (if napi_status_at env line = napi_ok then (napi_ok, pending w \<noteq> None)
      else (napi_status_at env line, False))"

text \<open>\<^verbatim>\<open>napi_create_uint32\<close> takes a \<^verbatim>\<open>uint32_t\<close>: a C \<^verbatim>\<open>int\<close> argument is converted.\<close>

definition uint32_of :: "int \<Rightarrow> int" where
  "uint32_of i = i mod 2 ^ 32"

text \<open>
  \<^verbatim>\<open>napi_get_value_int32\<close>: a finite number is truncated towards zero and its low 32
  bits are read as a signed integer; a NaN or an infinity gives 0.
\<close>

definition int32_of :: "int \<Rightarrow> int" where
  "int32_of i = (i + 2 ^ 31) mod 2 ^ 32 - 2 ^ 31"

definition truncate :: "rat \<Rightarrow> int" where
  "truncate q = (if q < 0 then - \<lfloor>- q\<rfloor> else \<lfloor>q\<rfloor>)"

fun napi_get_value_int32 :: "js_number \<Rightarrow> int" where
  "napi_get_value_int32 (Finite q) = int32_of (truncate q)"
| "napi_get_value_int32 NaN = 0"
| "napi_get_value_int32 Infinity = 0"
| "napi_get_value_int32 Minus_Infinity = 0"

text \<open>The Latin-1 bytes of a string: the low byte of each code unit.\<close>

definition latin1_of :: "nat list \<Rightarrow> string" where
  "latin1_of units = map (\<lambda>u. char_of (u mod 256)) units"

text \<open>
  \<^verbatim>\<open>napi_get_value_string_latin1(env, value, buf, bufsize, &result)\<close> on a zeroed buffer:
  it copies at most \<open>bufsize - 1\<close> characters, terminates them, and stores the number of
  characters copied. The result is the buffer and that number.
\<close>

definition napi_get_value_string_latin1 :: "string \<Rightarrow> nat \<Rightarrow> string \<times> nat" where
  "napi_get_value_string_latin1 s bufsize =
     (let copied = min (length s) (bufsize - 1)
      in (take copied s @ [NUL] @ drop (copied + 1) (bzero bufsize), copied))"

subsection \<open>\<^verbatim>\<open>_napi_call_error\<close>, lines 30 to 58\<close>

definition napi_call_error :: "env \<Rightarrow> napi_status \<Rightarrow> string \<Rightarrow> nat \<Rightarrow> world \<Rightarrow> world" where
  "napi_call_error env status call line w =
     (if status = napi_ok then w
      else
        let error_message =
              (if napi_status_at env 40 = napi_ok
               then (case napi_error_message env of Some m \<Rightarrow> m | None \<Rightarrow> ''Unknown Error'')
               else ''Unknown Error'');
            (status', is_pending) = napi_is_exception_pending env 52 w
        in if status' = napi_ok \<and> \<not> is_pending
           then napi_throw env 56
                  (JS_error Error None
                     (Utf8 (snprintf 128
                              (error_message @ '' ('' @ call @ '', line='' @ show_nat line @ '')'')))
                     None None) w
           else w)"

text \<open>
  The macros \<^verbatim>\<open>NAPI_CALL_VALUE\<close> and \<^verbatim>\<open>NAPI_CALL_VOID\<close>: when the call at \<open>line\<close> does not
  return \<^verbatim>\<open>napi_ok\<close>, the enclosing function reports it and returns. \<open>napi_failed\<close> is the
  test, \<open>NAPI_CALL_fail\<close> the world the function returns with.
\<close>

definition napi_failed :: "env \<Rightarrow> nat \<Rightarrow> bool" where
  "napi_failed env line = (napi_status_at env line \<noteq> napi_ok)"

definition NAPI_CALL_fail :: "env \<Rightarrow> string \<Rightarrow> nat \<Rightarrow> world \<Rightarrow> world" where
  "NAPI_CALL_fail env call line w = napi_call_error env (napi_status_at env line) call line w"

subsection \<open>\<^verbatim>\<open>_system_error\<close>, lines 81 to 128\<close>

text \<open>
  The result is the error object, or \<open>None\<close> where the source returns \<^verbatim>\<open>NULL\<close> from one of
  its \<^verbatim>\<open>NAPI_CALL_VALUE\<close>. \<^verbatim>\<open>napi_create_error\<close> needs a message: with a \<^verbatim>\<open>NULL\<close> one it
  returns \<^verbatim>\<open>napi_invalid_arg\<close>.
\<close>

definition system_error :: "env \<Rightarrow> string option \<Rightarrow> int \<Rightarrow> world \<Rightarrow> napi_value \<times> world" where
  "system_error env syscall errno_arg w =
     (let (message_chars, code_chars) =
            (if errno_arg \<noteq> 0
             then (uv_strerror env (uv_translate_sys_error env errno_arg),
                   uv_err_name env (uv_translate_sys_error env errno_arg))
             else (Some ''Unknown Error'', None))
      in if message_chars \<noteq> None \<and> napi_failed env 102
         then (None, NAPI_CALL_fail env ''napi_create_string_latin1'' 102 w)
         else if code_chars \<noteq> None \<and> napi_failed env 107
         then (None, NAPI_CALL_fail env ''napi_create_string_latin1'' 107 w)
         else
           (case message_chars of
              None \<Rightarrow> (None, napi_call_error env napi_invalid_arg ''napi_create_error'' 112 w)
            | Some message \<Rightarrow>
                if napi_failed env 112
                then (None, NAPI_CALL_fail env ''napi_create_error'' 112 w)
                else if napi_failed env 116
                then (None, NAPI_CALL_fail env ''napi_create_uint32'' 116 w)
                else if napi_failed env 117
                then (None, NAPI_CALL_fail env ''napi_set_named_property'' 117 w)
                else
                  (case syscall of
                     None \<Rightarrow>
                       (Some (JS_error Error code_chars (Latin1 message)
                                (Some (uint32_of errno_arg)) None), w)
                   | Some name \<Rightarrow>
                       if napi_failed env 122
                       then (None, NAPI_CALL_fail env ''napi_create_string_latin1'' 122 w)
                       else if napi_failed env 123
                       then (None, NAPI_CALL_fail env ''napi_set_named_property'' 123 w)
                       else (Some (JS_error Error code_chars (Latin1 message)
                                     (Some (uint32_of errno_arg)) (Some name)), w))))"

subsection \<open>\<^verbatim>\<open>_throw_type_error\<close> and \<^verbatim>\<open>_throw_system_error\<close>, lines 133 to 167\<close>

text \<open>Every caller passes a string literal, so the \<^verbatim>\<open>NULL\<close> message is not modelled.\<close>

definition throw_type_error :: "env \<Rightarrow> string \<Rightarrow> world \<Rightarrow> world" where
  "throw_type_error env message w =
     (let (status, is_pending) = napi_is_exception_pending env 138 w
      in if status = napi_ok \<and> \<not> is_pending
         then napi_throw env 141 (JS_error TypeError None (Utf8 message) None None) w
         else w)"

definition throw_system_error :: "env \<Rightarrow> string option \<Rightarrow> int \<Rightarrow> world \<Rightarrow> world" where
  "throw_system_error env syscall errno_arg w =
     (let (status, is_pending) = napi_is_exception_pending env 152 w
      in if status = napi_ok \<and> \<not> is_pending
         then
           (case system_error env syscall errno_arg w of
              (Some err, w') \<Rightarrow> napi_throw env 156 err w'
            | (None, w') \<Rightarrow>
                napi_throw env 164
                  (JS_error TypeError None
                     (Utf8 (snprintf 128
                        (case syscall of
                           None \<Rightarrow> ''System error (errno='' @ show_int errno_arg @ '')''
                         | Some name \<Rightarrow>
                             ''System error (syscall='' @ name @ '' errno='' @ show_int errno_arg @ '')'')))
                     None None) w')
         else w)"

subsection \<open>The worker: \<^verbatim>\<open>_open_execute_fail\<close> and \<^verbatim>\<open>_open_execute\<close>, lines 207 to 293\<close>

definition do_close :: "env \<Rightarrow> int \<Rightarrow> world \<Rightarrow> world" where
  "do_close env fd' w =
     log_event (E_close fd')
       (w\<lparr>errno := snd (sys_close env fd'), open_fds := open_fds w - {fd'}\<rparr>)"

text \<open>
  The parameter \<^verbatim>\<open>_errno\<close> is not used by the source: the record takes the global
  \<^verbatim>\<open>errno\<close>. The descriptor is closed on the path that does not return at line 219.
\<close>

definition open_execute_fail ::
  "env \<Rightarrow> open_data \<Rightarrow> string \<Rightarrow> int \<Rightarrow> world \<Rightarrow> open_data \<times> world" where
  "open_execute_fail env data syscall errno_arg w =
     (let socket = d_fd data;
          data' = data\<lparr>d_syscall := Some syscall, d_errno := errno w, d_fd := - 1\<rparr>
      in if socket > 1 then (data', w)
         else (data', do_close env socket w))"

definition do_socket :: "env \<Rightarrow> int \<Rightarrow> protocol \<Rightarrow> world \<Rightarrow> int \<times> world" where
  "do_socket env family proto w =
     (let (r, e) = sys_socket env family proto
      in (r, log_event (E_socket family proto r)
               (w\<lparr>errno := e,
                  open_fds := (if 0 \<le> r then insert r (open_fds w) else open_fds w)\<rparr>)))"

definition do_setsockopt :: "env \<Rightarrow> int \<Rightarrow> sockopt \<Rightarrow> world \<Rightarrow> int \<times> world" where
  "do_setsockopt env fd' opt w =
     (let (r, e) = sys_setsockopt env fd' opt
      in (r, log_event (E_setsockopt fd' opt r) (w\<lparr>errno := e\<rparr>)))"

definition do_if_nametoindex :: "env \<Rightarrow> string \<Rightarrow> world \<Rightarrow> int \<times> world" where
  "do_if_nametoindex env name w =
     (let (r, e) = sys_if_nametoindex env name
      in (r, log_event (E_if_nametoindex name r) (w\<lparr>errno := e\<rparr>)))"

definition do_bind :: "env \<Rightarrow> int \<Rightarrow> sockaddr \<Rightarrow> nat \<Rightarrow> world \<Rightarrow> int \<times> world" where
  "do_bind env fd' addr len w =
     (let (r, e) = sys_bind env fd' addr len
      in (r, log_event (E_bind fd' addr len r) (w\<lparr>errno := e\<rparr>)))"

text \<open>Lines 288 to 292: the optional source address.\<close>

definition open_execute_bind :: "env \<Rightarrow> open_data \<Rightarrow> world \<Rightarrow> open_data \<times> world" where
  "open_execute_bind env data w =
     (if d_sockaddr_size data > 0
      then
        (let (result, w') = do_bind env (d_fd data) (d_sockaddr data) (d_sockaddr_size data) w
         in if result \<noteq> 0 then open_execute_fail env data ''bind'' (errno w') w'
            else (data, w'))
      else (data, w))"

text \<open>
  Lines 251 to 286: the optional interface, under \<^verbatim>\<open>#ifdef __linux__\<close> and
  \<^verbatim>\<open>#ifdef __APPLE__\<close>; on another platform the block is empty.
\<close>

definition open_execute_interface :: "env \<Rightarrow> open_data \<Rightarrow> world \<Rightarrow> open_data \<times> world" where
  "open_execute_interface env data w =
     (if d_interface_length data > 0
      then
        (case platform env of
           Linux \<Rightarrow>
             (let (result, w') =
                    do_setsockopt env (d_fd data)
                      (SO_BINDTODEVICE (d_interface data) (d_interface_length data)) w
              in if result < 0 then open_execute_fail env data ''setsockopt'' (errno w') w'
                 else open_execute_bind env data w')
         | Apple \<Rightarrow>
             (let (index, w') = do_if_nametoindex env (cstring (d_interface data)) w
              in if index = 0 then open_execute_fail env data ''if_nametoindex'' (errno w') w'
                 else
                   (let opt = (if sa_family (d_sockaddr data) = AF_INET env
                               then IP_BOUND_IF index else IPV6_BOUND_IF index);
                        (result, w'') = do_setsockopt env (d_fd data) opt w'
                    in if result < 0
                       then open_execute_fail env data ''setsockopt'' (errno w'') w''
                       else open_execute_bind env data w''))
         | Other_platform \<Rightarrow> open_execute_bind env data w)
      else open_execute_bind env data w)"

definition open_execute :: "env \<Rightarrow> open_data \<Rightarrow> world \<Rightarrow> open_data \<times> world" where
  "open_execute env data w =
     (let protocol =
            (if sa_family (d_sockaddr data) = AF_INET env then Some IPPROTO_ICMP
             else if sa_family (d_sockaddr data) = AF_INET6 env then Some IPPROTO_ICMPV6
             else None)
      in case protocol of
           None \<Rightarrow> (data\<lparr>d_errno := EAFNOSUPPORT env, d_fd := - 1\<rparr>, w)
         | Some proto \<Rightarrow>
             (let (r, w') = do_socket env (sa_family (d_sockaddr data)) proto w;
                  data' = data\<lparr>d_fd := r\<rparr>
              in if d_fd data' < 0 then open_execute_fail env data' ''socket'' (errno w') w'
                 else open_execute_interface env data' w'))"

subsection \<open>The completion: \<^verbatim>\<open>_open_complete\<close>, lines 298 to 342\<close>

text \<open>
  \<^verbatim>\<open>napi_call_function\<close> runs the JavaScript function. N-API refuses the call while an
  exception is pending; when the function throws, the call returns
  \<^verbatim>\<open>napi_pending_exception\<close> with that exception pending.
\<close>

definition napi_call_function ::
  "env \<Rightarrow> nat \<Rightarrow> js_value \<Rightarrow> napi_value list \<Rightarrow> world \<Rightarrow> napi_status \<times> world" where
  "napi_call_function env line func args w =
     (if pending w \<noteq> None then (napi_pending_exception, w)
      else if napi_status_at env line \<noteq> napi_ok then (napi_status_at env line, w)
      else
        (case callback_throws env of
           None \<Rightarrow> (napi_ok, log_event (E_call_function func args) w)
         | Some e \<Rightarrow>
             (napi_pending_exception,
              log_event (E_call_function func args) (w\<lparr>pending := Some e\<rparr>))))"

text \<open>
  Lines 330 to 341: fetch the callback, call it, then delete the reference and the async
  work. \<^verbatim>\<open>napi_get_reference_value\<close> needs a reference: with \<^verbatim>\<open>NULL\<close> it returns
  \<^verbatim>\<open>napi_invalid_arg\<close>.
\<close>

definition open_complete_callback :: "env \<Rightarrow> open_data \<Rightarrow> napi_value list \<Rightarrow> world \<Rightarrow> world" where
  "open_complete_callback env data args w =
     (case d_callback_ref data of
        None \<Rightarrow> napi_call_error env napi_invalid_arg ''napi_get_reference_value'' 332 w
      | Some callback \<Rightarrow>
          if napi_failed env 332 then NAPI_CALL_fail env ''napi_get_reference_value'' 332 w
          else if napi_failed env 336 then NAPI_CALL_fail env ''napi_get_global'' 336 w
          else
            (let (status, w1) = napi_call_function env 337 callback args w
             in if status \<noteq> napi_ok
                then napi_call_error env status ''napi_call_function'' 337 w1
                else if napi_failed env 340
                then NAPI_CALL_fail env ''napi_delete_reference'' 340 w1
                else
                  (let w2 = log_event E_delete_reference w1
                   in if napi_failed env 341
                      then NAPI_CALL_fail env ''napi_delete_async_work'' 341 w2
                      else log_event E_delete_async_work w2)))"

text \<open>
  The function copies the heap record to a local and frees the heap block first. The
  two argument slots start as \<^verbatim>\<open>null\<close> and \<^verbatim>\<open>undefined\<close>.
\<close>

definition open_complete :: "env \<Rightarrow> napi_status \<Rightarrow> open_data \<Rightarrow> world \<Rightarrow> world" where
  "open_complete env status data w =
     (let w0 = log_event E_free (w\<lparr>heap := None\<rparr>)
      in if napi_failed env 310 then NAPI_CALL_fail env ''napi_get_null'' 310 w0
         else if napi_failed env 311 then NAPI_CALL_fail env ''napi_get_undefined'' 311 w0
         else if status \<noteq> napi_ok
         then
           (if napi_failed env 321
            then NAPI_CALL_fail env ''napi_create_string_latin1'' 321 w0
            else if napi_failed env 323
            then NAPI_CALL_fail env ''napi_create_error'' 323 w0
            else open_complete_callback env data
                   [Some (JS_error Error None
                            (Latin1 (snprintf 128
                               (''NAPI error opening (status='' @ show_int status @ '')'')))
                            None None),
                    Some JS_undefined] w0)
         else if d_fd data < 0
         then
           (let (err, w1) = system_error env (d_syscall data) (d_errno data) w0
            in open_complete_callback env data [err, Some JS_undefined] w1)
         else if napi_failed env 327 then NAPI_CALL_fail env ''napi_create_uint32'' 327 w0
         else open_complete_callback env data
                [Some JS_null, Some (JS_number (Finite (of_int (uint32_of (d_fd data)))))] w0)"

subsection \<open>The entry point: \<^verbatim>\<open>_open\<close>, lines 347 to 502\<close>

text \<open>
  \<^verbatim>\<open>_open\<close> is one long function that leaves through \<^verbatim>\<open>return NULL\<close> at every check. It
  is translated block by block, in the order of the source; a block either returns from
  \<^verbatim>\<open>_open\<close> (\<open>Returned\<close>, with the world at that point) or hands on what it computed
  (\<open>Next\<close>). Every path of \<^verbatim>\<open>_open\<close> returns \<^verbatim>\<open>NULL\<close>, so its model returns the world only.
\<close>

datatype 'a flow = Returned world | Next 'a world

definition sizeof_sockaddr_in :: nat where "sizeof_sockaddr_in = 16"
definition sizeof_sockaddr_in6 :: nat where "sizeof_sockaddr_in6 = 28"

text \<open>Line 355: the local record, zeroed.\<close>

definition zeroed_data :: "env \<Rightarrow> open_data" where
  "zeroed_data env =
     \<lparr>d_async_work = None, d_callback_ref = None, d_sockaddr_size = 0,
      d_sockaddr = \<lparr>sa_family = 0, sin_addr = []\<rparr>,
      d_interface_length = 0, d_interface = bzero (IFNAMSIZ env + 1),
      d_syscall = None, d_errno = 0, d_fd = 0\<rparr>"

text \<open>Lines 372 to 396: the socket family. The block hands on \<^verbatim>\<open>__sa_family\<close> and the record.\<close>

definition open_family :: "env \<Rightarrow> js_value \<Rightarrow> open_data \<Rightarrow> world \<Rightarrow> (int \<times> open_data) flow" where
  "open_family env socket_family data w =
     (if napi_failed env 373 then Returned (NAPI_CALL_fail env ''napi_typeof'' 373 w)
      else if js_typeof socket_family \<noteq> napi_number
      then Returned (throw_type_error env ''Specified socket family is not a number'' w)
      else if napi_failed env 382
      then Returned (NAPI_CALL_fail env ''napi_get_value_int32'' 382 w)
      else
        (let sa_family' =
               (case socket_family of JS_number n \<Rightarrow> napi_get_value_int32 n | _ \<Rightarrow> - 1)
         in if sa_family' = AF_INET env
            then Next (sa_family',
                       data\<lparr>d_sockaddr := (d_sockaddr data)\<lparr>sa_family := AF_INET env\<rparr>,
                            d_sockaddr_size := sizeof_sockaddr_in\<rparr>) w
            else if sa_family' = AF_INET6 env
            then Next (sa_family',
                       data\<lparr>d_sockaddr := (d_sockaddr data)\<lparr>sa_family := AF_INET6 env\<rparr>,
                            d_sockaddr_size := sizeof_sockaddr_in6\<rparr>) w
            else Returned (throw_type_error env ''Socket family must be AF_INET or AF_INET6'' w)))"

text \<open>
  Lines 398 to 435: the address to bind to. The check of line 415 throws and goes on:
  it has no \<^verbatim>\<open>return\<close>. \<^verbatim>\<open>inet_pton\<close> reads the C string in the buffer and stores the
  address only when it returns 1.
\<close>

definition open_from_address :: "env \<Rightarrow> int \<Rightarrow> js_value \<Rightarrow> open_data \<Rightarrow> world \<Rightarrow> open_data flow" where
  "open_from_address env sa_family' from_address data w =
     (if napi_failed env 399 then Returned (NAPI_CALL_fail env ''napi_typeof'' 399 w)
      else if js_typeof from_address = napi_null \<or> js_typeof from_address = napi_undefined
      then Next (data\<lparr>d_sockaddr_size := 0\<rparr>) w
      else if js_typeof from_address \<noteq> napi_string
      then Returned (throw_type_error env ''From address must be a string, null or undefined'' w)
      else if napi_failed env 412
      then Returned (NAPI_CALL_fail env ''napi_get_value_string_latin1'' 412 w)
      else
        (let (buffer, size') =
               napi_get_value_string_latin1
                 (case from_address of JS_string s \<Rightarrow> latin1_of s | _ \<Rightarrow> []) 42;
             w1 = (if size' > 40
                   then throw_type_error env ''From address must be at most 40 characters long'' w
                   else w);
             (result, e, bytes) = inet_pton env sa_family' (cstring buffer);
             w2 = w1\<lparr>errno := e\<rparr>
         in if result < 0
            then Returned (throw_system_error env (Some ''inet_pton'') (errno w2) w2)
            else if result = 0
            then Returned
                   (throw_type_error env
                      (snprintf 128
                         ((if sa_family' = AF_INET env then ''Invalid IPv4 from address: ''
                           else if sa_family' = AF_INET6 env then ''Invalid IPv6 from address: ''
                           else ''Invalid from address: '') @ cstring buffer)) w2)
            else Next (data\<lparr>d_sockaddr := (d_sockaddr data)\<lparr>sin_addr := bytes\<rparr>\<rparr>) w2))"

text \<open>
  Lines 437 to 462: the interface to bind to. The \<^verbatim>\<open>memcpy\<close> of line 460 copies
  \<^verbatim>\<open>__size + 1\<close> bytes from the local buffer of \<^verbatim>\<open>IFNAMSIZ + 2\<close> bytes into the record's
  array; a copy past the end of either is recorded as a memory fault.
\<close>

definition open_source_interface :: "env \<Rightarrow> js_value \<Rightarrow> open_data \<Rightarrow> world \<Rightarrow> open_data flow" where
  "open_source_interface env source_interface data w =
     (if napi_failed env 438 then Returned (NAPI_CALL_fail env ''napi_typeof'' 438 w)
      else if js_typeof source_interface = napi_null \<or> js_typeof source_interface = napi_undefined
      then Next (data\<lparr>d_interface_length := 0\<rparr>) w
      else if js_typeof source_interface \<noteq> napi_string
      then Returned
             (throw_type_error env ''Source interface must be a string, null or undefined'' w)
      else if napi_failed env 451
      then Returned (NAPI_CALL_fail env ''napi_get_value_string_latin1'' 451 w)
      else
        (let (buffer, size') =
               napi_get_value_string_latin1
                 (case source_interface of JS_string s \<Rightarrow> latin1_of s | _ \<Rightarrow> [])
                 (IFNAMSIZ env + 2)
         in if size' > IFNAMSIZ env
            then Returned
                   (throw_type_error env
                      (''Source interface must be at most '' @ show_nat (IFNAMSIZ env)
                         @ '' characters long'') w)
            else
              (case memcpy (d_interface data) buffer (size' + 1) of
                 None \<Rightarrow> Returned (w\<lparr>memory_fault := True\<rparr>)
               | Some interface' \<Rightarrow>
                   Next (data\<lparr>d_interface := interface', d_interface_length := size'\<rparr>) w)))"

text \<open>Lines 464 to 470: the callback must be a function.\<close>

definition open_callback :: "env \<Rightarrow> js_value \<Rightarrow> world \<Rightarrow> unit flow" where
  "open_callback env callback w =
     (if napi_failed env 465 then Returned (NAPI_CALL_fail env ''napi_typeof'' 465 w)
      else if js_typeof callback \<noteq> napi_function
      then Returned (throw_type_error env ''Specified callback is not a function'' w)
      else Next () w)"

text \<open>
  Lines 472 to 498: the reference to the callback, the resource, the heap copy of the
  record, the async work and its queueing. The call of lines 488 to 495 is identified by
  its first line. Allocation is assumed to succeed (the source does not test it).
\<close>

definition open_queue :: "env \<Rightarrow> js_value \<Rightarrow> open_data \<Rightarrow> world \<Rightarrow> world" where
  "open_queue env callback data w =
     (if napi_failed env 473 then NAPI_CALL_fail env ''napi_create_reference'' 473 w
      else
        (let w1 = log_event (E_create_reference callback) w;
             data1 = data\<lparr>d_callback_ref := Some callback\<rparr>
         in if napi_failed env 479 then NAPI_CALL_fail env ''napi_create_object'' 479 w1
            else if napi_failed env 480
            then NAPI_CALL_fail env ''napi_create_string_latin1'' 480 w1
            else
              (let w2 = log_event E_malloc (w1\<lparr>heap := Some data1\<rparr>)
               in if napi_failed env 488
                  then NAPI_CALL_fail env ''napi_create_async_work'' 488 w2
                  else
                    (let w3 = log_event E_create_async_work
                                (w2\<lparr>heap := Some (data1\<lparr>d_async_work := Some Async_work\<rparr>)\<rparr>)
                     in if napi_failed env 498
                        then NAPI_CALL_fail env ''napi_queue_async_work'' 498 w3
                        else log_event E_queue_async_work (w3\<lparr>queued := True\<rparr>)))))"

text \<open>
  Lines 357 to 470: the checks, in the order of the source. \<^verbatim>\<open>napi_get_cb_info\<close> stores
  the number of arguments the caller passed; \<open>info\<close> is the list of those arguments.
\<close>

definition open_validate :: "env \<Rightarrow> js_value list \<Rightarrow> world \<Rightarrow> open_data flow" where
  "open_validate env info w =
     (if napi_failed env 360 then Returned (NAPI_CALL_fail env ''napi_get_cb_info'' 360 w)
      else if length info \<noteq> 4
      then Returned
             (throw_type_error env
                ''Expected 4 arguments: socket family, from address, source interface, callback'' w)
      else
        (let socket_family = info ! 0;
             from_address = info ! 1;
             source_interface = info ! 2;
             callback = info ! 3
         in case open_family env socket_family (zeroed_data env) w of
              Returned w1 \<Rightarrow> Returned w1
            | Next (sa_family', data1) w1 \<Rightarrow>
                (case open_from_address env sa_family' from_address data1 w1 of
                   Returned w2 \<Rightarrow> Returned w2
                 | Next data2 w2 \<Rightarrow>
                     (case open_source_interface env source_interface data2 w2 of
                        Returned w3 \<Rightarrow> Returned w3
                      | Next data3 w3 \<Rightarrow>
                          (case open_callback env callback w3 of
                             Returned w4 \<Rightarrow> Returned w4
                           | Next u w4 \<Rightarrow> Next data3 w4)))))"

text \<open>\<^verbatim>\<open>_open\<close>: the checks, then lines 472 to 498 with the fourth argument.\<close>

definition open_fn :: "env \<Rightarrow> js_value list \<Rightarrow> world \<Rightarrow> world" where
  "open_fn env info w =
     (case open_validate env info w of
        Returned w' \<Rightarrow> w'
      | Next data w' \<Rightarrow> open_queue env (info ! 3) data w')"

subsection \<open>One call of \<^verbatim>\<open>open\<close>, from the JavaScript caller to the callback\<close>

text \<open>
  Modelled from the spec: the asynchronous execution engine of sections 4.4 and 5 is
  N-API's work queue, which is not in the repository. A work item that was queued has
  the execute function run once on a worker thread and then the complete function run
  once on the origin thread, with the heap record the item was created with and status
  \<^verbatim>\<open>napi_ok\<close>; an item the queue cancelled has the complete function run with the
  status of the cancellation and the execute function not at all. The exception pending
  when \<^verbatim>\<open>_open\<close> returns is thrown to the JavaScript caller, so the completion starts
  with none pending. The result is that exception and the final world.
\<close>

definition initial_world :: world where
  "initial_world =
     \<lparr>errno = 0, pending = None, open_fds = {}, heap = None, queued = False,
      memory_fault = False, trace = []\<rparr>"

definition lifecycle :: "env \<Rightarrow> js_value list \<Rightarrow> js_value option \<times> world" where
  "lifecycle env info =
     (let w1 = open_fn env info initial_world
      in if queued w1
         then
           (case heap w1 of
              None \<Rightarrow> (pending w1, w1)
            | Some data \<Rightarrow>
                if async_status env = napi_ok
                then
                  (let (data', w2) = open_execute env data (w1\<lparr>pending := None\<rparr>)
                   in (pending w1, open_complete env napi_ok data' (w2\<lparr>heap := Some data'\<rparr>)))
                else (pending w1, open_complete env (async_status env) data (w1\<lparr>pending := None\<rparr>)))
         else (pending w1, w1))"

subsection \<open>What the trace is asked\<close>

fun is_call :: "event \<Rightarrow> bool" where
  "is_call (E_call_function f args) = True"
| "is_call e = False"

fun is_throw :: "event \<Rightarrow> bool" where
  "is_throw (E_throw v) = True"
| "is_throw e = False"

fun is_syscall :: "event \<Rightarrow> bool" where
  "is_syscall (E_socket f p r) = True"
| "is_syscall (E_setsockopt s opt r) = True"
| "is_syscall (E_if_nametoindex n r) = True"
| "is_syscall (E_bind s a l r) = True"
| "is_syscall (E_close s) = True"
| "is_syscall e = False"

fun is_bind :: "event \<Rightarrow> bool" where
  "is_bind (E_bind s a l r) = True"
| "is_bind e = False"

text \<open>
  The two slots of a callback invocation: the error slot is empty when it holds
  \<^verbatim>\<open>null\<close>, the descriptor slot when it holds \<^verbatim>\<open>undefined\<close>. \<open>one_slot\<close> holds of an argument
  list that is an error with no descriptor, or a non-negative descriptor with no error.
\<close>

fun non_negative_integer :: "js_number \<Rightarrow> bool" where
  "non_negative_integer (Finite q) = (0 \<le> q \<and> of_int \<lfloor>q\<rfloor> = q)"
| "non_negative_integer n = False"

fun one_slot :: "napi_value list \<Rightarrow> bool" where
  "one_slot [Some (JS_error c code msg eno sc), Some JS_undefined] = True"
| "one_slot [Some JS_null, Some (JS_number n)] = non_negative_integer n"
| "one_slot args = False"

text \<open>
  Which arguments the checks of \<^verbatim>\<open>_open\<close> are made to refuse: a family that is not a
  number or is neither \<^verbatim>\<open>AF_INET\<close> nor \<^verbatim>\<open>AF_INET6\<close>; an address that is neither
  \<^verbatim>\<open>null\<close> nor \<^verbatim>\<open>undefined\<close> and that is not a string whose text (as copied into the
  buffer of 42 bytes) \<^verbatim>\<open>inet_pton\<close> converts; an interface that is neither \<^verbatim>\<open>null\<close> nor
  \<^verbatim>\<open>undefined\<close> and is not a string of at most \<^verbatim>\<open>IFNAMSIZ\<close> characters; a callback that
  is not a function; and a call with other than four arguments.
\<close>

definition bad_family :: "env \<Rightarrow> js_value \<Rightarrow> bool" where
  "bad_family env v =
     (case v of
        JS_number n \<Rightarrow>
          napi_get_value_int32 n \<noteq> AF_INET env \<and> napi_get_value_int32 n \<noteq> AF_INET6 env
      | _ \<Rightarrow> True)"

definition bad_address :: "env \<Rightarrow> js_value \<Rightarrow> js_value \<Rightarrow> bool" where
  "bad_address env family v =
     (case v of
        JS_null \<Rightarrow> False
      | JS_undefined \<Rightarrow> False
      | JS_string s \<Rightarrow>
          (case family of
             JS_number n \<Rightarrow>
               fst (inet_pton env (napi_get_value_int32 n)
                      (cstring (fst (napi_get_value_string_latin1 (latin1_of s) 42)))) \<le> 0
           | _ \<Rightarrow> True)
      | _ \<Rightarrow> True)"

definition bad_interface :: "env \<Rightarrow> js_value \<Rightarrow> bool" where
  "bad_interface env v =
     (case v of
        JS_null \<Rightarrow> False
      | JS_undefined \<Rightarrow> False
      | JS_string s \<Rightarrow> IFNAMSIZ env < length s
      | _ \<Rightarrow> True)"

definition bad_callback :: "js_value \<Rightarrow> bool" where
  "bad_callback v = (js_typeof v \<noteq> napi_function)"

definition invalid_arguments :: "env \<Rightarrow> js_value list \<Rightarrow> bool" where
  "invalid_arguments env info =
     (if length info \<noteq> 4 then True
      else bad_family env (info ! 0) \<or> bad_address env (info ! 0) (info ! 1)
           \<or> bad_interface env (info ! 2) \<or> bad_callback (info ! 3))"

text \<open>
  What a function leaves behind apart from exceptions: the trace without its throws,
  the open descriptors, the heap block, the queue, the fault flag.
\<close>

definition effects :: "world \<Rightarrow> event list \<times> int set \<times> open_data option \<times> bool \<times> bool" where
  "effects w =
     (filter (\<lambda>e. \<not> is_throw e) (trace w), open_fds w, heap w, queued w, memory_fault w)"

definition raised :: "world \<Rightarrow> bool" where
  "raised w = (pending w \<noteq> None)"

text \<open>What the worker thread leaves alone: everything but \<^verbatim>\<open>errno\<close>, the descriptors and
  the system calls of the trace.\<close>

definition worker_frame ::
  "world \<Rightarrow> js_value option \<times> open_data option \<times> bool \<times> bool \<times> event list" where
  "worker_frame w =
     (pending w, heap w, queued w, memory_fault w, filter (\<lambda>e. \<not> is_syscall e) (trace w))"

text \<open>The events of a request's end: the heap record freed, the callback called, the
  reference to the callback deleted.\<close>

fun is_lifetime :: "event \<Rightarrow> bool" where
  "is_lifetime E_free = True"
| "is_lifetime (E_call_function f args) = True"
| "is_lifetime E_delete_reference = True"
| "is_lifetime e = False"

text \<open>
  The N-API calls with which the source raises an exception (lines 52, 56, 138, 141,
  152, 156 and 164) return \<^verbatim>\<open>napi_ok\<close>.
\<close>

definition throw_ok :: "env \<Rightarrow> bool" where
  "throw_ok env =
     (napi_status_at env 52 = napi_ok \<and> napi_status_at env 56 = napi_ok \<and>
      napi_status_at env 138 = napi_ok \<and> napi_status_at env 141 = napi_ok \<and>
      napi_status_at env 152 = napi_ok \<and> napi_status_at env 156 = napi_ok \<and>
      napi_status_at env 164 = napi_ok)"

text \<open>
  A runtime that works: every N-API call returns \<^verbatim>\<open>napi_ok\<close>, and libuv has a message
  for every error code (as \<^verbatim>\<open>uv_strerror\<close> does, which never returns \<^verbatim>\<open>NULL\<close>).
\<close>

definition runtime_ok :: "env \<Rightarrow> bool" where
  "runtime_ok env =
     ((\<forall>line. napi_status_at env line = napi_ok) \<and> (\<forall>e. uv_strerror env e \<noteq> None))"

text \<open>The N-API calls of \<^verbatim>\<open>_system_error\<close> (lines 102 to 123) return \<^verbatim>\<open>napi_ok\<close>.\<close>

definition error_calls_ok :: "env \<Rightarrow> bool" where
  "error_calls_ok env =
     (napi_status_at env 102 = napi_ok \<and> napi_status_at env 107 = napi_ok \<and>
      napi_status_at env 112 = napi_ok \<and> napi_status_at env 116 = napi_ok \<and>
      napi_status_at env 117 = napi_ok \<and> napi_status_at env 122 = napi_ok \<and>
      napi_status_at env 123 = napi_ok)"

subsection \<open>Example environments\<close>

text \<open>
  A Linux host on which every call succeeds: \<^verbatim>\<open>socket\<close> returns descriptor 3, the N-API
  calls return \<^verbatim>\<open>napi_ok\<close>, the callback returns normally. \<^verbatim>\<open>inet_pton\<close> knows one IPv4
  address and one IPv4-mapped IPv6 address of 41 characters and rejects every other
  text; the libuv functions know \<^verbatim>\<open>EPERM\<close> and \<^verbatim>\<open>ENODEV\<close> and answer as libuv does for
  a code they do not know.
\<close>

definition mapped_address :: string where
  "mapped_address = ''0000:0000:0000:0000:0000:ffff:192.168.1.1''"

definition linux_env :: env where
  "linux_env =
     \<lparr>platform = Linux, IFNAMSIZ = 16, AF_INET = 2, AF_INET6 = 10, EAFNOSUPPORT = 97,
      inet_pton = (\<lambda>family text.
         if family = 2 \<and> text = ''192.0.2.5'' then (1, 0, [192, 0, 2, 5])
         else if family = 10 \<and> text = mapped_address
         then (1, 0, [0, 0, 0, 0, 0, 0, 0, 0, 0, 0, 255, 255, 192, 168, 1, 1])
         else (0, 0, [])),
      sys_socket = (\<lambda>family proto. (3, 0)),
      sys_setsockopt = (\<lambda>s opt. (0, 0)),
      sys_if_nametoindex = (\<lambda>name. (2, 0)),
      sys_bind = (\<lambda>s addr len. (0, 0)),
      sys_close = (\<lambda>s. if s < 0 then (- 1, 9) else (0, 0)),
      uv_translate_sys_error = (\<lambda>e. if e \<le> 0 then e else - e),
      uv_strerror = (\<lambda>e.
         if e = - 1 then Some ''operation not permitted''
         else if e = - 19 then Some ''no such device''
         else Some (''Unknown system error '' @ show_int e)),
      uv_err_name = (\<lambda>e.
         if e = - 1 then Some ''EPERM''
         else if e = - 19 then Some ''ENODEV''
         else Some (''Unknown system error '' @ show_int e)),
      napi_status_at = (\<lambda>line. napi_ok),
      napi_error_message = None,
      callback_throws = None,
      async_status = napi_ok\<rparr>"

text \<open>The same host when binding the socket to the device fails with \<^verbatim>\<open>ENODEV\<close>.\<close>

definition no_device_env :: env where
  "no_device_env = linux_env\<lparr>sys_setsockopt := (\<lambda>s opt. (- 1, 19))\<rparr>"

text \<open>The same host when one N-API call, the one at the given source line, fails.\<close>

definition napi_generic_failure :: napi_status where "napi_generic_failure = 9"

definition failing_at :: "nat \<Rightarrow> env" where
  "failing_at line =
     linux_env\<lparr>napi_status_at := (\<lambda>l. if l = line then napi_generic_failure else napi_ok)\<rparr>"

text \<open>Example calls. \<open>js_str\<close> is the JavaScript string of an ASCII text.\<close>

definition js_str :: "string \<Rightarrow> nat list" where
  "js_str s = map of_char s"

definition plain_request :: "js_value list" where
  "plain_request = [JS_number (Finite 2), JS_null, JS_null, JS_function 0]"

definition bad_family_request :: "js_value list" where
  "bad_family_request = [JS_number (Finite 12345), JS_null, JS_null, JS_function 0]"


definition empty_address_request :: "js_value list" where
  "empty_address_request = [JS_number (Finite 2), JS_string [], JS_null, JS_function 0]"

definition long_address_request :: "js_value list" where
  "long_address_request =
     [JS_number (Finite 10), JS_string (js_str mapped_address), JS_null, JS_function 0]"

definition eth0_request :: "js_value list" where
  "eth0_request = [JS_number (Finite 2), JS_null, JS_string (js_str ''eth0''), JS_function 0]"

definition long_interface_request :: "js_value list" where
  "long_interface_request =
     [JS_number (Finite 2), JS_null, JS_string (js_str ''wlan0123456789abc''), JS_function 0]"

definition limit_interface_request :: "js_value list" where
  "limit_interface_request =
     [JS_number (Finite 2), JS_null, JS_string (js_str ''wlan0123456789ab''), JS_function 0]"

text \<open>The record that \<^verbatim>\<open>_open\<close> queues for \<open>eth0_request\<close>.\<close>

definition eth0_data :: open_data where
  "eth0_data =
     \<lparr>d_async_work = Some Async_work, d_callback_ref = Some (JS_function 0),
      d_sockaddr_size = 0, d_sockaddr = \<lparr>sa_family = 2, sin_addr = []\<rparr>,
      d_interface_length = 4, d_interface = ''eth0'' @ replicate 13 NUL,
      d_syscall = None, d_errno = 0, d_fd = 0\<rparr>"

section \<open>Properties\<close>

subsection \<open>Throwing leaves no other effect\<close>

lemma effects_errno [simp]: "effects (w\<lparr>errno := e\<rparr>) = effects w"
  by (simp add: effects_def)

lemma effects_napi_throw [simp]: "effects (napi_throw env line e w) = effects w"
  by (simp add: napi_throw_def effects_def log_event_def)

lemma effects_napi_call_error [simp]: "effects (napi_call_error env st call line w) = effects w"
  by (simp add: napi_call_error_def Let_def split: prod.splits)

lemma effects_NAPI_CALL_fail [simp]: "effects (NAPI_CALL_fail env call line w) = effects w"
  by (simp add: NAPI_CALL_fail_def)

lemma effects_throw_type_error [simp]: "effects (throw_type_error env m w) = effects w"
  by (simp add: throw_type_error_def split: prod.splits)

lemma effects_system_error [simp]: "effects (snd (system_error env sc e w)) = effects w"
  by (simp add: system_error_def Let_def split: prod.splits option.splits)

lemma effects_throw_system_error [simp]: "effects (throw_system_error env sc e w) = effects w"
proof -
  have "effects (snd (system_error env sc e w)) = effects w" by simp
  then show ?thesis
    by (cases "system_error env sc e w")
       (auto simp: throw_system_error_def split: prod.splits option.splits)
qed

lemma effects_fields:
  assumes "effects a = effects b"
  shows "open_fds a = open_fds b" and "heap a = heap b" and "queued a = queued b"
    and "memory_fault a = memory_fault b"
    and "filter (\<lambda>e. \<not> is_throw e) (trace a) = filter (\<lambda>e. \<not> is_throw e) (trace b)"
  using assms by (simp_all add: effects_def)

lemma filter_through_throws:
  assumes "filter (\<lambda>e. \<not> is_throw e) xs = filter (\<lambda>e. \<not> is_throw e) ys"
    and "\<And>e. P e \<Longrightarrow> \<not> is_throw e"
  shows "filter P xs = filter P ys"
proof -
  have "filter P zs = filter P (filter (\<lambda>e. \<not> is_throw e) zs)" for zs
    using assms(2) by (induction zs) auto
  then show ?thesis using assms(1) by metis
qed

lemma effects_calls: "effects a = effects b \<Longrightarrow> filter is_call (trace a) = filter is_call (trace b)"
  by (rule filter_through_throws [OF effects_fields(5)]) (auto elim: is_call.elims)

lemma effects_syscalls:
  "effects a = effects b \<Longrightarrow> filter is_syscall (trace a) = filter is_syscall (trace b)"
  by (rule filter_through_throws [OF effects_fields(5)]) (auto elim: is_syscall.elims)

lemma effects_member:
  assumes "effects a = effects b" and "\<not> is_throw e"
  shows "e \<in> set (trace a) \<longleftrightarrow> e \<in> set (trace b)"
proof -
  have "e \<in> set zs \<longleftrightarrow> e \<in> set (filter (\<lambda>e. \<not> is_throw e) zs)" for zs
    using assms(2) by simp
  then show ?thesis using effects_fields(5) [OF assms(1)] by metis
qed

subsection \<open>Raising\<close>

lemma raised_errno [simp]: "raised (w\<lparr>errno := e\<rparr>) = raised w"
  by (simp add: raised_def)

lemma raised_napi_throw_mono: "raised w \<Longrightarrow> raised (napi_throw env line e w)"
  by (simp add: napi_throw_def raised_def log_event_def)

lemma raised_napi_throw: "napi_status_at env line = napi_ok \<Longrightarrow> raised (napi_throw env line e w)"
  by (simp add: napi_throw_def raised_def log_event_def)

lemma is_pending_ok:
  "napi_status_at env line = napi_ok \<Longrightarrow>
   napi_is_exception_pending env line w = (napi_ok, raised w)"
  by (simp add: napi_is_exception_pending_def raised_def)

lemma raised_napi_call_error_mono: "raised w \<Longrightarrow> raised (napi_call_error env st call line w)"
  by (simp add: napi_call_error_def Let_def raised_napi_throw_mono split: prod.splits)

lemma raised_napi_call_error:
  "throw_ok env \<Longrightarrow> st \<noteq> napi_ok \<Longrightarrow> raised (napi_call_error env st call line w)"
  by (cases "raised w")
     (simp_all add: napi_call_error_def Let_def throw_ok_def is_pending_ok raised_napi_throw)

lemma raised_NAPI_CALL_fail:
  "throw_ok env \<Longrightarrow> napi_failed env line \<Longrightarrow> raised (NAPI_CALL_fail env call line w)"
  by (simp add: NAPI_CALL_fail_def napi_failed_def raised_napi_call_error)

lemma raised_NAPI_CALL_fail_mono: "raised w \<Longrightarrow> raised (NAPI_CALL_fail env call line w)"
  by (simp add: NAPI_CALL_fail_def raised_napi_call_error_mono)

lemma raised_throw_type_error: "throw_ok env \<Longrightarrow> raised (throw_type_error env m w)"
  by (cases "raised w")
     (simp_all add: throw_type_error_def throw_ok_def is_pending_ok raised_napi_throw)

lemma raised_throw_type_error_mono: "raised w \<Longrightarrow> raised (throw_type_error env m w)"
  by (simp add: throw_type_error_def raised_napi_throw_mono split: prod.splits)

lemma raised_throw_system_error: "throw_ok env \<Longrightarrow> raised (throw_system_error env sc e w)"
  by (cases "raised w")
     (simp_all add: throw_system_error_def throw_ok_def is_pending_ok raised_napi_throw
        split: prod.splits option.splits)

subsection \<open>The string copy\<close>

lemma length_latin1_of [simp]: "length (latin1_of s) = length s"
  by (simp add: latin1_of_def)

lemma latin1_length:
  "0 < n \<Longrightarrow> length (fst (napi_get_value_string_latin1 s n)) = n"
  by (auto simp: napi_get_value_string_latin1_def Let_def bzero_def min_def)

lemma latin1_copied:
  "snd (napi_get_value_string_latin1 s n) = min (length s) (n - 1)"
  by (simp add: napi_get_value_string_latin1_def Let_def)

lemma latin1_pair:
  assumes "napi_get_value_string_latin1 s n = (buf, c)" and "0 < n"
  shows "length buf = n" and "c = min (length s) (n - 1)"
  using assms latin1_length [of n s] latin1_copied [of s n] by auto

lemma latin1_short:
  assumes "length s < n"
  shows "napi_get_value_string_latin1 s n = (s @ replicate (n - length s) NUL, length s)"
proof -
  have m: "min (length s) (n - Suc 0) = length s" using assms by simp
  have "n - length s = Suc (n - (length s + 1))" using assms by simp
  then have "replicate (n - length s) NUL = NUL # replicate (n - (length s + 1)) NUL"
    by simp
  then show ?thesis
    by (simp add: napi_get_value_string_latin1_def Let_def bzero_def m)
qed

subsection \<open>The blocks of the entry point\<close>

lemma open_family_effects:
  "open_family env v d w = Returned w' \<Longrightarrow> effects w' = effects w"
  "open_family env v d w = Next x w' \<Longrightarrow> w' = w"
  by (auto simp: open_family_def Let_def split: if_splits)

lemma open_family_raised:
  "throw_ok env \<Longrightarrow> open_family env v d w = Returned w' \<Longrightarrow> raised w'"
  by (auto simp: open_family_def Let_def raised_NAPI_CALL_fail raised_throw_type_error
      split: if_splits)

lemma open_family_Next:
  assumes "open_family env v d w = Next (f, d') w'"
  shows "\<exists>n. v = JS_number n \<and> f = napi_get_value_int32 n" and "f = AF_INET env \<or> f = AF_INET6 env"
    and "sa_family (d_sockaddr d') = f" and "d_interface d' = d_interface d"
    and "0 < d_sockaddr_size d'"
  using assms
  by (cases v; auto simp: open_family_def Let_def sizeof_sockaddr_in_def sizeof_sockaddr_in6_def
      split: if_splits)+

lemma open_from_address_effects:
  "open_from_address env f v d w = Returned w' \<Longrightarrow> effects w' = effects w"
  "open_from_address env f v d w = Next x w' \<Longrightarrow> effects w' = effects w"
  by (auto simp: open_from_address_def Let_def split: if_splits prod.splits)

lemma open_from_address_raised:
  "throw_ok env \<Longrightarrow> open_from_address env f v d w = Returned w' \<Longrightarrow> raised w'"
  by (auto simp: open_from_address_def Let_def raised_NAPI_CALL_fail raised_throw_type_error
      raised_throw_system_error split: if_splits prod.splits)

lemma open_from_address_raised_mono:
  "raised w \<Longrightarrow> open_from_address env f v d w = Next d' w' \<Longrightarrow> raised w'"
  by (auto simp: open_from_address_def Let_def raised_throw_type_error_mono
      split: if_splits prod.splits)

lemma open_from_address_Next:
  assumes "open_from_address env f v d w = Next d' w'"
  shows "v = JS_null \<or> v = JS_undefined \<or>
         (\<exists>s. v = JS_string s \<and>
              0 < fst (inet_pton env f
                         (cstring (fst (napi_get_value_string_latin1 (latin1_of s) 42)))))"
    and "d_interface d' = d_interface d"
    and "sa_family (d_sockaddr d') = sa_family (d_sockaddr d)"
  using assms
  by (cases v; auto simp: open_from_address_def Let_def split: if_splits prod.splits)+

lemma open_callback_effects:
  "open_callback env v w = Returned w' \<Longrightarrow> effects w' = effects w"
  "open_callback env v w = Next x w' \<Longrightarrow> w' = w"
  by (auto simp: open_callback_def Let_def split: if_splits)

lemma open_callback_raised:
  "throw_ok env \<Longrightarrow> open_callback env v w = Returned w' \<Longrightarrow> raised w'"
  by (auto simp: open_callback_def raised_NAPI_CALL_fail raised_throw_type_error
      split: if_splits)

lemma open_callback_Next: "open_callback env v w = Next x w' \<Longrightarrow> js_typeof v = napi_function"
  by (auto simp: open_callback_def split: if_splits)

lemma interface_buffer:
  obtains buf c where
    "napi_get_value_string_latin1 s (IFNAMSIZ env + 2) = (buf, c)"
    "length buf = IFNAMSIZ env + 2" "c = min (length s) (IFNAMSIZ env + 1)"
proof -
  obtain buf c where bc: "napi_get_value_string_latin1 s (IFNAMSIZ env + 2) = (buf, c)"
    by (cases "napi_get_value_string_latin1 s (IFNAMSIZ env + 2)")
  from latin1_pair [OF bc] have "length buf = IFNAMSIZ env + 2" "c = min (length s) (IFNAMSIZ env + 1)"
    by simp_all
  with bc show ?thesis by (rule that)
qed

lemma open_source_interface_effects:
  assumes len: "length (d_interface d) = IFNAMSIZ env + 1"
  shows "open_source_interface env v d w = Returned w' \<Longrightarrow> effects w' = effects w"
    and "open_source_interface env v d w = Next x w' \<Longrightarrow> w' = w"
proof -
  obtain buf c where bc:
    "napi_get_value_string_latin1 (case v of JS_string s \<Rightarrow> latin1_of s | _ \<Rightarrow> []) (IFNAMSIZ env + 2) = (buf, c)"
    and lb: "length buf = IFNAMSIZ env + 2"
    by (rule interface_buffer)
  have copy: "c \<le> IFNAMSIZ env \<Longrightarrow> memcpy (d_interface d) buf (c + 1) \<noteq> None"
    using len lb by (simp add: memcpy_def)
  show "open_source_interface env v d w = Returned w' \<Longrightarrow> effects w' = effects w"
    using bc copy
    by (auto simp: open_source_interface_def split: if_splits option.splits)
  show "open_source_interface env v d w = Next x w' \<Longrightarrow> w' = w"
    using bc
    by (auto simp: open_source_interface_def split: if_splits option.splits)
qed

lemma open_source_interface_raised:
  assumes len: "length (d_interface d) = IFNAMSIZ env + 1" and ok: "throw_ok env"
    and ret: "open_source_interface env v d w = Returned w'"
  shows "raised w'"
proof -
  obtain buf c where bc:
    "napi_get_value_string_latin1 (case v of JS_string s \<Rightarrow> latin1_of s | _ \<Rightarrow> []) (IFNAMSIZ env + 2) = (buf, c)"
    and lb: "length buf = IFNAMSIZ env + 2"
    by (rule interface_buffer)
  have copy: "c \<le> IFNAMSIZ env \<Longrightarrow> memcpy (d_interface d) buf (c + 1) \<noteq> None"
    using len lb by (simp add: memcpy_def)
  show ?thesis
    using ret bc copy ok
    by (auto simp: open_source_interface_def raised_NAPI_CALL_fail raised_throw_type_error
        split: if_splits option.splits)
qed

lemma open_source_interface_Next:
  assumes "open_source_interface env v d w = Next d' w'"
  shows "v = JS_null \<or> v = JS_undefined \<or> (\<exists>s. v = JS_string s \<and> length s \<le> IFNAMSIZ env)"
proof -
  obtain buf c where bc:
    "napi_get_value_string_latin1 (case v of JS_string s \<Rightarrow> latin1_of s | _ \<Rightarrow> []) (IFNAMSIZ env + 2) = (buf, c)"
    and c: "c = min (length (case v of JS_string s \<Rightarrow> latin1_of s | _ \<Rightarrow> [])) (IFNAMSIZ env + 1)"
    by (rule interface_buffer)
  show ?thesis
    using assms bc c
    by (cases v) (auto simp: open_source_interface_def split: if_splits option.splits)
qed

text \<open>The record that reaches the interface block has the array of line 195.\<close>

lemma zeroed_interface: "length (d_interface (zeroed_data env)) = IFNAMSIZ env + 1"
  by (simp add: zeroed_data_def bzero_def)

subsection \<open>The checks as a whole\<close>

lemma open_validate_NextE:
  assumes "open_validate env info w = Next d w'"
  obtains f d1 w1 d2 w2 w3 where
    "\<not> napi_failed env 360" "length info = 4"
    "open_family env (info ! 0) (zeroed_data env) w = Next (f, d1) w1"
    "open_from_address env f (info ! 1) d1 w1 = Next d2 w2"
    "open_source_interface env (info ! 2) d2 w2 = Next d w3"
    "open_callback env (info ! 3) w3 = Next () w'"
  using assms
  by (auto simp: open_validate_def Let_def split: if_splits flow.splits)

lemma open_validate_ReturnedE:
  assumes "open_validate env info w = Returned w'"
  obtains
    (cb_info) "napi_failed env 360" "w' = NAPI_CALL_fail env ''napi_get_cb_info'' 360 w"
  | (count) m where "length info \<noteq> 4" "w' = throw_type_error env m w"
  | (family) "open_family env (info ! 0) (zeroed_data env) w = Returned w'"
  | (address) f d1 w1 where
      "open_family env (info ! 0) (zeroed_data env) w = Next (f, d1) w1"
      "open_from_address env f (info ! 1) d1 w1 = Returned w'"
  | (interface) f d1 w1 d2 w2 where
      "open_family env (info ! 0) (zeroed_data env) w = Next (f, d1) w1"
      "open_from_address env f (info ! 1) d1 w1 = Next d2 w2"
      "open_source_interface env (info ! 2) d2 w2 = Returned w'"
  | (callback) f d1 w1 d2 w2 d3 w3 where
      "open_family env (info ! 0) (zeroed_data env) w = Next (f, d1) w1"
      "open_from_address env f (info ! 1) d1 w1 = Next d2 w2"
      "open_source_interface env (info ! 2) d2 w2 = Next d3 w3"
      "open_callback env (info ! 3) w3 = Returned w'"
  using assms
  by (auto simp: open_validate_def Let_def split: if_splits flow.splits)

lemma interface_array_kept:
  assumes "open_family env v0 (zeroed_data env) w = Next (f, d1) w1"
    and "open_from_address env f v1 d1 w1 = Next d2 w2"
  shows "length (d_interface d2) = IFNAMSIZ env + 1"
  using open_family_Next(4) [OF assms(1)] open_from_address_Next(2) [OF assms(2)]
  by (simp add: zeroed_interface)

lemma open_validate_Returned:
  assumes "open_validate env info w = Returned w'"
  shows "effects w' = effects w" and "throw_ok env \<Longrightarrow> raised w'"
proof -
  show "effects w' = effects w"
    using assms
  proof (cases rule: open_validate_ReturnedE)
    case (address f d1 w1)
    then show ?thesis
      using open_family_effects(2) open_from_address_effects(1) by metis
  next
    case (interface f d1 w1 d2 w2)
    from open_source_interface_effects(1) [OF interface_array_kept [OF interface(1,2)] interface(3)]
    show ?thesis
      using open_family_effects(2) [OF interface(1)] open_from_address_effects(2) [OF interface(2)]
      by simp
  next
    case (callback f d1 w1 d2 w2 d3 w3)
    from open_source_interface_effects(2) [OF interface_array_kept [OF callback(1,2)] callback(3)]
    show ?thesis
      using open_family_effects(2) [OF callback(1)] open_from_address_effects(2) [OF callback(2)]
        open_callback_effects(1) [OF callback(4)]
      by simp
  qed (simp_all add: open_family_effects)
  show "raised w'" if ok: "throw_ok env"
    using assms
  proof (cases rule: open_validate_ReturnedE)
    case cb_info
    then show ?thesis by (simp add: raised_NAPI_CALL_fail ok)
  next
    case (count m)
    then show ?thesis by (simp add: raised_throw_type_error ok)
  next
    case family
    then show ?thesis by (rule open_family_raised [OF ok])
  next
    case (address f d1 w1)
    then show ?thesis using open_from_address_raised [OF ok] by blast
  next
    case (interface f d1 w1 d2 w2)
    show ?thesis
      by (rule open_source_interface_raised
            [OF interface_array_kept [OF interface(1,2)] ok interface(3)])
  next
    case (callback f d1 w1 d2 w2 d3 w3)
    then show ?thesis using open_callback_raised [OF ok] by blast
  qed
qed

lemma open_validate_Next:
  assumes "open_validate env info w = Next d w'"
  shows "effects w' = effects w" and "\<not> invalid_arguments env info"
proof -
  from assms obtain f d1 w1 d2 w2 w3 where
    len: "length info = 4"
    and 1: "open_family env (info ! 0) (zeroed_data env) w = Next (f, d1) w1"
    and 2: "open_from_address env f (info ! 1) d1 w1 = Next d2 w2"
    and 3: "open_source_interface env (info ! 2) d2 w2 = Next d w3"
    and 4: "open_callback env (info ! 3) w3 = Next () w'"
    by (rule open_validate_NextE)
  note fam = open_family_Next [OF 1]
  note adr = open_from_address_Next [OF 2]
  note ifc = open_source_interface_Next [OF 3]
  note cb = open_callback_Next [OF 4]
  have w3: "w3 = w2"
    by (rule open_source_interface_effects(2) [OF interface_array_kept [OF 1 2] 3])
  show "effects w' = effects w"
    using open_family_effects(2) [OF 1] open_from_address_effects(2) [OF 2] w3
      open_callback_effects(2) [OF 4]
    by simp
  show "\<not> invalid_arguments env info"
    using len fam(1,2) adr(1) ifc cb
    by (auto simp: invalid_arguments_def bad_family_def bad_address_def bad_interface_def
        bad_callback_def)
qed

subsection \<open>Queueing\<close>

lemma effects_log_event:
  "effects (log_event e w) =
     (filter (\<lambda>e. \<not> is_throw e) (trace w) @ (if is_throw e then [] else [e]),
      open_fds w, heap w, queued w, memory_fault w)"
  by (simp add: effects_def log_event_def)

lemma trace_NAPI_CALL_fail [simp]:
  "filter is_call (trace (NAPI_CALL_fail env call line w)) = filter is_call (trace w)"
  "filter is_syscall (trace (NAPI_CALL_fail env call line w)) = filter is_syscall (trace w)"
  by (rule effects_calls, simp) (rule effects_syscalls, simp)

lemma open_queue_calls:
  "filter is_call (trace (open_queue env cb d w)) = filter is_call (trace w)"
  by (simp add: open_queue_def Let_def log_event_def)

lemma open_queue_syscalls:
  "filter is_syscall (trace (open_queue env cb d w)) = filter is_syscall (trace w)"
  by (simp add: open_queue_def Let_def log_event_def)

lemma field_NAPI_CALL_fail [simp]:
  "queued (NAPI_CALL_fail env call line w) = queued w"
  "heap (NAPI_CALL_fail env call line w) = heap w"
  "memory_fault (NAPI_CALL_fail env call line w) = memory_fault w"
  "open_fds (NAPI_CALL_fail env call line w) = open_fds w"
  by (rule effects_fields, simp)+

lemma open_queue_fields [simp]:
  "memory_fault (open_queue env cb d w) = memory_fault w"
  "open_fds (open_queue env cb d w) = open_fds w"
  by (simp_all add: open_queue_def Let_def log_event_def)

lemma open_queue_queued:
  assumes "queued (open_queue env cb d w)" and "\<not> queued w"
  shows "heap (open_queue env cb d w) =
           Some (d\<lparr>d_callback_ref := Some cb, d_async_work := Some Async_work\<rparr>)"
    and "\<not> raised w \<Longrightarrow> \<not> raised (open_queue env cb d w)"
  using assms
  by (auto simp: open_queue_def Let_def log_event_def raised_def split: if_splits)

subsection \<open>The entry point\<close>

lemma open_fn_invalid:
  assumes "invalid_arguments env info"
  shows "effects (open_fn env info w) = effects w"
    and "throw_ok env \<Longrightarrow> raised (open_fn env info w)"
proof -
  obtain w' where r: "open_validate env info w = Returned w'"
    using assms open_validate_Next(2) by (cases "open_validate env info w") auto
  then show "effects (open_fn env info w) = effects w"
    by (simp add: open_fn_def open_validate_Returned(1))
  show "raised (open_fn env info w)" if "throw_ok env"
    using r that by (simp add: open_fn_def open_validate_Returned(2))
qed

lemma open_fn_calls: "filter is_call (trace (open_fn env info w)) = filter is_call (trace w)"
proof (cases "open_validate env info w")
  case (Returned w')
  then show ?thesis
    using effects_calls [OF open_validate_Returned(1) [OF Returned]] by (simp add: open_fn_def)
next
  case (Next d w')
  then show ?thesis
    using effects_calls [OF open_validate_Next(1) [OF Next]]
    by (simp add: open_fn_def open_queue_calls)
qed

lemma open_fn_syscalls:
  "filter is_syscall (trace (open_fn env info w)) = filter is_syscall (trace w)"
proof (cases "open_validate env info w")
  case (Returned w')
  then show ?thesis
    using effects_syscalls [OF open_validate_Returned(1) [OF Returned]] by (simp add: open_fn_def)
next
  case (Next d w')
  then show ?thesis
    using effects_syscalls [OF open_validate_Next(1) [OF Next]]
    by (simp add: open_fn_def open_queue_syscalls)
qed

lemma open_fn_fields [simp]:
  "memory_fault (open_fn env info w) = memory_fault w"
  "open_fds (open_fn env info w) = open_fds w"
proof -
  show "memory_fault (open_fn env info w) = memory_fault w"
  proof (cases "open_validate env info w")
    case (Returned w')
    then show ?thesis
      using effects_fields(4) [OF open_validate_Returned(1) [OF Returned]]
      by (simp add: open_fn_def)
  next
    case (Next d w')
    then show ?thesis
      using effects_fields(4) [OF open_validate_Next(1) [OF Next]] by (simp add: open_fn_def)
  qed
  show "open_fds (open_fn env info w) = open_fds w"
  proof (cases "open_validate env info w")
    case (Returned w')
    then show ?thesis
      using effects_fields(1) [OF open_validate_Returned(1) [OF Returned]]
      by (simp add: open_fn_def)
  next
    case (Next d w')
    then show ?thesis
      using effects_fields(1) [OF open_validate_Next(1) [OF Next]] by (simp add: open_fn_def)
  qed
qed

lemma open_fn_queued:
  assumes "queued (open_fn env info w)" and "\<not> queued w"
  shows "\<exists>d. heap (open_fn env info w) = Some d \<and> d_callback_ref d = Some (info ! 3)"
    and "\<not> invalid_arguments env info"
proof -
  obtain d w' where n: "open_validate env info w = Next d w'"
    using assms effects_fields(3) [OF open_validate_Returned(1)]
    by (cases "open_validate env info w") (auto simp: open_fn_def)
  have q: "\<not> queued w'"
    using effects_fields(3) [OF open_validate_Next(1) [OF n]] assms(2) by simp
  show "\<exists>d. heap (open_fn env info w) = Some d \<and> d_callback_ref d = Some (info ! 3)"
    using open_queue_queued(1) [OF _ q, of env "info ! 3" d] assms(1) n
    by (simp add: open_fn_def)
  show "\<not> invalid_arguments env info"
    by (rule open_validate_Next(2) [OF n])
qed

subsection \<open>The worker touches descriptors only\<close>

lemma filter_narrow:
  assumes "filter Q xs = filter Q ys" and "\<And>e. P e \<Longrightarrow> Q e"
  shows "filter P xs = filter P ys"
proof -
  have "filter P zs = filter P (filter Q zs)" for zs
    using assms(2) by (induction zs) auto
  then show ?thesis using assms(1) by metis
qed

lemma worker_frame_close [simp]: "worker_frame (do_close env s w) = worker_frame w"
  by (simp add: worker_frame_def do_close_def log_event_def)

lemma worker_frame_do:
  "do_socket env f p w = (r, w') \<Longrightarrow> worker_frame w' = worker_frame w"
  "do_setsockopt env s opt w = (r, w') \<Longrightarrow> worker_frame w' = worker_frame w"
  "do_if_nametoindex env n w = (r, w') \<Longrightarrow> worker_frame w' = worker_frame w"
  "do_bind env s a l w = (r, w') \<Longrightarrow> worker_frame w' = worker_frame w"
  by (auto simp: worker_frame_def do_socket_def do_setsockopt_def
      do_if_nametoindex_def do_bind_def log_event_def split: prod.splits)

lemma open_execute_fail_frame [simp]:
  "worker_frame (snd (open_execute_fail env d sc e w)) = worker_frame w"
  "d_callback_ref (fst (open_execute_fail env d sc e w)) = d_callback_ref d"
  by (simp_all add: open_execute_fail_def Let_def)

lemma open_execute_bind_frame [simp]:
  "worker_frame (snd (open_execute_bind env d w)) = worker_frame w"
  "d_callback_ref (fst (open_execute_bind env d w)) = d_callback_ref d"
  by (auto simp: open_execute_bind_def Let_def worker_frame_do split: prod.splits)

lemma open_execute_interface_frame [simp]:
  "worker_frame (snd (open_execute_interface env d w)) = worker_frame w"
  "d_callback_ref (fst (open_execute_interface env d w)) = d_callback_ref d"
  by (auto simp: open_execute_interface_def Let_def worker_frame_do
      split: prod.splits platform.splits)

lemma open_execute_frame [simp]:
  "worker_frame (snd (open_execute env d w)) = worker_frame w"
  "d_callback_ref (fst (open_execute env d w)) = d_callback_ref d"
  by (auto simp: open_execute_def Let_def worker_frame_do split: prod.splits option.splits)

lemma worker_frame_fields:
  assumes "worker_frame a = worker_frame b"
  shows "pending a = pending b" and "heap a = heap b" and "queued a = queued b"
    and "memory_fault a = memory_fault b"
    and "filter (\<lambda>e. \<not> is_syscall e) (trace a) = filter (\<lambda>e. \<not> is_syscall e) (trace b)"
  using assms by (simp_all add: worker_frame_def)

lemma worker_frame_calls:
  "worker_frame a = worker_frame b \<Longrightarrow> filter is_call (trace a) = filter is_call (trace b)"
  by (rule filter_narrow [OF worker_frame_fields(5)]) (auto elim: is_call.elims)

lemma worker_frame_lifetime:
  "worker_frame a = worker_frame b \<Longrightarrow>
   filter is_lifetime (trace a) = filter is_lifetime (trace b)"
  by (rule filter_narrow [OF worker_frame_fields(5)]) (auto elim: is_lifetime.elims)

subsection \<open>The completion\<close>

lemma runtime_ok_napi [simp]:
  assumes "runtime_ok env"
  shows "napi_failed env line = False" and "napi_status_at env line = napi_ok"
  using assms by (simp_all add: runtime_ok_def napi_failed_def)

lemma runtime_ok_message: "runtime_ok env \<Longrightarrow> \<exists>m. uv_strerror env e = Some m"
  by (simp add: runtime_ok_def)

lemma system_error_ok:
  assumes "runtime_ok env"
  shows "\<exists>code msg. system_error env sc e w = (Some (JS_error Error code msg (Some (uint32_of e)) sc), w)"
proof (cases "e = 0")
  case True
  then show ?thesis
    using assms by (cases sc) (simp_all add: system_error_def)
next
  case False
  obtain m where "uv_strerror env (uv_translate_sys_error env e) = Some m"
    using runtime_ok_message [OF assms] by blast
  then show ?thesis
    using assms False by (cases sc) (simp_all add: system_error_def)
qed

lemma calls_napi_call_error [simp]:
  "filter is_call (trace (napi_call_error env st call line w)) = filter is_call (trace w)"
  by (rule effects_calls) simp





lemma open_complete_callback_ok:
  assumes "runtime_ok env" and "\<not> raised w" and "d_callback_ref d = Some cb"
  shows "trace (open_complete_callback env d args w) =
           trace w @ E_call_function cb args #
             (if callback_throws env = None then [E_delete_reference, E_delete_async_work] else [])"
proof (cases "callback_throws env")
  case None
  then show ?thesis
    using assms
    by (simp add: open_complete_callback_def napi_call_function_def raised_def log_event_def)
next
  case (Some e)
  then show ?thesis
    using assms
    by (simp add: open_complete_callback_def napi_call_function_def raised_def log_event_def
        napi_pending_exception_def napi_ok_def napi_call_error_def napi_is_exception_pending_def)
qed

lemma open_complete_ok:
  assumes "runtime_ok env" and "\<not> raised w" and "d_callback_ref d = Some cb"
  shows "\<exists>args. one_slot args \<and>
           trace (open_complete env st d w) =
             trace w @ E_free # E_call_function cb args #
               (if callback_throws env = None then [E_delete_reference, E_delete_async_work] else [])"
proof -
  let ?w0 = "log_event E_free (w\<lparr>heap := None\<rparr>)"
  have r: "\<not> raised ?w0" using assms(2) by (simp add: raised_def log_event_def)
  have t: "trace ?w0 = trace w @ [E_free]" by (simp add: log_event_def)
  note cb = open_complete_callback_ok [OF assms(1) r assms(3), unfolded t]
  consider (status) "st \<noteq> napi_ok" | (failure) "st = napi_ok" "d_fd d < 0"
    | (success) "st = napi_ok" "0 \<le> d_fd d"
    by linarith
  then show ?thesis
  proof cases
    case status
    then show ?thesis
      using assms(1) by (simp add: open_complete_def Let_def cb)
  next
    case failure
    obtain code msg where
      "system_error env (d_syscall d) (d_errno d) ?w0 =
         (Some (JS_error Error code msg (Some (uint32_of (d_errno d))) (d_syscall d)), ?w0)"
      using system_error_ok [OF assms(1)] by blast
    then show ?thesis
      using assms(1) failure by (simp add: open_complete_def Let_def cb)
  next
    case success
    then have "0 \<le> uint32_of (d_fd d)" by (simp add: uint32_of_def)
    then show ?thesis
      using assms(1) success by (simp add: open_complete_def Let_def cb)
  qed
qed

subsection \<open>One call, start to end\<close>

lemma runtime_ok_linux: "runtime_ok linux_env"
  by (simp add: runtime_ok_def linux_env_def)

lemma queued_plain: "queued (open_fn linux_env plain_request initial_world)"
  by code_simp

lemma lifecycle_queued:
  assumes q: "queued (open_fn env info initial_world)"
  obtains d' w2 where
    "snd (lifecycle env info) = open_complete env (async_status env) d' w2"
    "d_callback_ref d' = Some (info ! 3)"
    "pending w2 = None"
    "memory_fault w2 = False"
    "filter (\<lambda>e. \<not> is_syscall e) (trace w2) =
       filter (\<lambda>e. \<not> is_syscall e) (trace (open_fn env info initial_world))"
proof -
  let ?w1 = "open_fn env info initial_world"
  have nq: "\<not> queued initial_world" by (simp add: initial_world_def)
  have mf: "memory_fault ?w1 = False" by (simp add: initial_world_def)
  obtain d where d: "heap ?w1 = Some d" "d_callback_ref d = Some (info ! 3)"
    using open_fn_queued(1) [OF q nq] by blast
  show ?thesis
  proof (cases "async_status env = napi_ok")
    case True
    obtain d' w2 where e: "open_execute env d (?w1\<lparr>pending := None\<rparr>) = (d', w2)"
      by (cases "open_execute env d (?w1\<lparr>pending := None\<rparr>)")
    have l: "snd (lifecycle env info) =
               open_complete env (async_status env) d' (w2\<lparr>heap := Some d'\<rparr>)"
      using q d e True by (simp add: lifecycle_def Let_def)
    have c: "d_callback_ref d' = Some (info ! 3)"
      using open_execute_frame(2) [of env d "?w1\<lparr>pending := None\<rparr>"] e d(2) by simp
    have f: "worker_frame w2 = worker_frame (?w1\<lparr>pending := None\<rparr>)"
      using open_execute_frame(1) [of env d "?w1\<lparr>pending := None\<rparr>"] e by simp
    show ?thesis
      using worker_frame_fields [OF f] mf
      by (intro that [OF l c]) simp_all
  next
    case False
    have l: "snd (lifecycle env info) =
               open_complete env (async_status env) d (?w1\<lparr>pending := None\<rparr>)"
      using q d False by (simp add: lifecycle_def Let_def)
    show ?thesis
      using mf by (intro that [OF l d(2)]) simp_all
  qed
qed

lemma not_syscall_calls:
  assumes "filter (\<lambda>e. \<not> is_syscall e) xs = filter (\<lambda>e. \<not> is_syscall e) ys"
  shows "filter is_call xs = filter is_call ys"
  by (rule filter_narrow [OF assms]) (auto elim: is_call.elims)

lemma not_syscall_lifetime:
  assumes "filter (\<lambda>e. \<not> is_syscall e) xs = filter (\<lambda>e. \<not> is_syscall e) ys"
  shows "filter is_lifetime xs = filter is_lifetime ys"
  by (rule filter_narrow [OF assms]) (auto elim: is_lifetime.elims)

lemma lifecycle_not_queued:
  "\<not> queued (open_fn env info initial_world) \<Longrightarrow>
   snd (lifecycle env info) = open_fn env info initial_world"
  by (simp add: lifecycle_def Let_def)

lemma lifecycle_thrown: "fst (lifecycle env info) = pending (open_fn env info initial_world)"
  by (simp add: lifecycle_def Let_def split: option.splits prod.splits)

text \<open>
  Claim C2, as amended. A request that was queued has its callback called exactly once
  in the whole run, with the fourth argument of the call as the function, and with one
  slot filled: an error object and \<^verbatim>\<open>undefined\<close>, or \<^verbatim>\<open>null\<close> and a non-negative
  descriptor. This holds when every N-API call returns \<^verbatim>\<open>napi_ok\<close> and libuv has a
  message for every code; the callback may throw.
\<close>

theorem completion_handler_called_once:
  assumes "runtime_ok env" and "queued (open_fn env info initial_world)"
  shows "\<exists>args. one_slot args \<and>
           filter is_call (trace (snd (lifecycle env info))) = [E_call_function (info ! 3) args]"
proof -
  let ?w1 = "open_fn env info initial_world"
  from assms(2) obtain d' w2 where
    l: "snd (lifecycle env info) = open_complete env (async_status env) d' w2"
    and c: "d_callback_ref d' = Some (info ! 3)"
    and p: "pending w2 = None"
    and f: "filter (\<lambda>e. \<not> is_syscall e) (trace w2) =
              filter (\<lambda>e. \<not> is_syscall e) (trace ?w1)"
    by (rule lifecycle_queued)
  have r: "\<not> raised w2" using p by (simp add: raised_def)
  have "filter is_call (trace w2) = filter is_call (trace ?w1)"
    by (rule not_syscall_calls [OF f])
  also have "\<dots> = []"
    using open_fn_calls [of env info initial_world] by (simp add: initial_world_def)
  finally have n: "filter is_call (trace w2) = []" .
  obtain args where a: "one_slot args"
    and t: "trace (open_complete env (async_status env) d' w2) =
             trace w2 @ E_free # E_call_function (info ! 3) args #
               (if callback_throws env = None then [E_delete_reference, E_delete_async_work] else [])"
    using open_complete_ok [OF assms(1) r c] by blast
  have "filter is_call (trace (snd (lifecycle env info))) = [E_call_function (info ! 3) args]"
    unfolding l t using n by simp
  with a show ?thesis by blast
qed

theorem completion_handler_called_once_witness:
  "runtime_ok linux_env \<and> queued (open_fn linux_env plain_request initial_world) \<and>
   (\<exists>args. one_slot args \<and>
      filter is_call (trace (snd (lifecycle linux_env plain_request))) =
        [E_call_function (JS_function 0) args])"
proof -
  have a: "runtime_ok linux_env" by (rule runtime_ok_linux)
  have b: "queued (open_fn linux_env plain_request initial_world)" by (rule queued_plain)
  show ?thesis
    using a b completion_handler_called_once [OF a b] by (simp add: plain_request_def)
qed

text \<open>
  Claim C2 as stated fails where an N-API call of the completion fails: with
  \<^verbatim>\<open>napi_create_uint32\<close> at line 327 failing, the request is queued, the socket is
  opened, and \<^verbatim>\<open>_open_complete\<close> returns before it calls the callback.
\<close>

theorem completion_handler_not_called_counterexample:
  "queued (open_fn (failing_at 327) plain_request initial_world) \<and>
   filter is_call (trace (snd (lifecycle (failing_at 327) plain_request))) = []"
  by code_simp

lemma throw_ok_linux: "throw_ok linux_env"
  by (simp add: throw_ok_def linux_env_def)

lemma initial_effects: "effects initial_world = ([], {}, None, False, False)"
  by (simp add: effects_def initial_world_def)

lemma invalid_run:
  assumes "invalid_arguments env info"
  shows "snd (lifecycle env info) = open_fn env info initial_world"
    and "effects (snd (lifecycle env info)) = ([], {}, None, False, False)"
    and "throw_ok env \<Longrightarrow> fst (lifecycle env info) \<noteq> None"
proof -
  have e: "effects (open_fn env info initial_world) = ([], {}, None, False, False)"
    using open_fn_invalid(1) [OF assms, of initial_world] by (simp add: initial_effects)
  then have "\<not> queued (open_fn env info initial_world)" by (simp add: effects_def)
  then show l: "snd (lifecycle env info) = open_fn env info initial_world"
    by (rule lifecycle_not_queued)
  show "effects (snd (lifecycle env info)) = ([], {}, None, False, False)"
    using e l by simp
  show "fst (lifecycle env info) \<noteq> None" if "throw_ok env"
    using open_fn_invalid(2) [OF assms that, of initial_world]
    by (simp add: lifecycle_thrown raised_def)
qed

lemma not_throw:
  "is_call e \<Longrightarrow> \<not> is_throw e"
  "is_syscall e \<Longrightarrow> \<not> is_throw e"
  "is_lifetime e \<Longrightarrow> \<not> is_throw e"
  "is_bind e \<Longrightarrow> \<not> is_throw e"
  by (cases e; simp)+

lemma quiet_trace:
  assumes "filter (\<lambda>e. \<not> is_throw e) tr = []"
  shows "filter is_call tr = []" and "filter is_syscall tr = []"
    and "E_malloc \<notin> set tr" and "E_queue_async_work \<notin> set tr"
proof -
  have t: "\<forall>e \<in> set tr. is_throw e"
    using assms by (simp add: filter_empty_conv)
  show "filter is_call tr = []"
    using t not_throw(1) by (auto simp: filter_empty_conv)
  show "filter is_syscall tr = []"
    using t not_throw(2) by (auto simp: filter_empty_conv)
  show "E_malloc \<notin> set tr" using t by auto
  show "E_queue_async_work \<notin> set tr" using t by auto
qed

lemma invalid_run_quiet:
  assumes "invalid_arguments env info"
  shows "filter is_call (trace (snd (lifecycle env info))) = []"
    and "filter is_syscall (trace (snd (lifecycle env info))) = []"
    and "E_malloc \<notin> set (trace (snd (lifecycle env info)))"
    and "E_queue_async_work \<notin> set (trace (snd (lifecycle env info)))"
    and "heap (snd (lifecycle env info)) = None"
    and "\<not> queued (snd (lifecycle env info))"
proof -
  note r = invalid_run [OF assms]
  have q: "filter (\<lambda>e. \<not> is_throw e) (trace (snd (lifecycle env info))) = []"
    using r(2) by (simp add: effects_def)
  show "filter is_call (trace (snd (lifecycle env info))) = []"
    and "filter is_syscall (trace (snd (lifecycle env info))) = []"
    and "E_malloc \<notin> set (trace (snd (lifecycle env info)))"
    and "E_queue_async_work \<notin> set (trace (snd (lifecycle env info)))"
    by (rule quiet_trace [OF q])+
  show "heap (snd (lifecycle env info)) = None" "\<not> queued (snd (lifecycle env info))"
    using r(2) by (simp_all add: effects_def)
qed

text \<open>
  Claim C3, as amended. When the arguments are invalid (not four arguments, a bad
  family, an address that is not converted, an interface name that is too long, a
  callback that is not a function), the run ends inside \<^verbatim>\<open>_open\<close>: the callback is not
  called, no system call is made, the request record is not allocated and nothing is
  queued. The failure is reported to the caller, as an exception pending when \<^verbatim>\<open>_open\<close>
  returns, when the N-API calls that raise it return \<^verbatim>\<open>napi_ok\<close>.
\<close>

theorem invalid_arguments_fail_synchronously:
  assumes "invalid_arguments env info"
  shows "snd (lifecycle env info) = open_fn env info initial_world \<and>
         filter is_call (trace (snd (lifecycle env info))) = [] \<and>
         filter is_syscall (trace (snd (lifecycle env info))) = [] \<and>
         E_malloc \<notin> set (trace (snd (lifecycle env info))) \<and>
         E_queue_async_work \<notin> set (trace (snd (lifecycle env info))) \<and>
         heap (snd (lifecycle env info)) = None \<and>
         \<not> queued (snd (lifecycle env info)) \<and>
         (throw_ok env \<longrightarrow> fst (lifecycle env info) \<noteq> None)"
  using invalid_run(1,3) [OF assms] invalid_run_quiet [OF assms] by blast

lemma bad_family_request_invalid: "invalid_arguments linux_env bad_family_request"
  by code_simp

theorem invalid_arguments_fail_synchronously_witness:
  "invalid_arguments linux_env bad_family_request \<and> throw_ok linux_env \<and>
   snd (lifecycle linux_env bad_family_request) =
     open_fn linux_env bad_family_request initial_world \<and>
   filter is_call (trace (snd (lifecycle linux_env bad_family_request))) = [] \<and>
   filter is_syscall (trace (snd (lifecycle linux_env bad_family_request))) = [] \<and>
   E_malloc \<notin> set (trace (snd (lifecycle linux_env bad_family_request))) \<and>
   E_queue_async_work \<notin> set (trace (snd (lifecycle linux_env bad_family_request))) \<and>
   heap (snd (lifecycle linux_env bad_family_request)) = None \<and>
   \<not> queued (snd (lifecycle linux_env bad_family_request)) \<and>
   fst (lifecycle linux_env bad_family_request) \<noteq> None"
  using invalid_arguments_fail_synchronously [OF bad_family_request_invalid]
    bad_family_request_invalid throw_ok_linux
  by blast

text \<open>
  Claim C3 as stated fails in two ways. With \<^verbatim>\<open>napi_is_exception_pending\<close> at line 138
  failing, \<^verbatim>\<open>_throw_type_error\<close> throws nothing: a call with a bad family returns with
  no error reported. And an address of 41 characters that \<^verbatim>\<open>inet_pton\<close> converts is
  refused by the check of line 415, which throws and goes on: the call is queued, the
  worker runs and the callback is called.
\<close>

theorem invalid_arguments_counterexample:
  "invalid_arguments (failing_at 138) bad_family_request \<and>
   fst (lifecycle (failing_at 138) bad_family_request) = None \<and>
   40 < length mapped_address \<and>
   fst (lifecycle linux_env long_address_request) =
     Some (JS_error TypeError None (Utf8 ''From address must be at most 40 characters long'')
             None None) \<and>
   queued (open_fn linux_env long_address_request initial_world) \<and>
   filter is_call (trace (snd (lifecycle linux_env long_address_request))) =
     [E_call_function (JS_function 0) [Some JS_null, Some (JS_number (Finite 3))]]"
  by code_simp

lemma effects_lifetime:
  "effects a = effects b \<Longrightarrow> filter is_lifetime (trace a) = filter is_lifetime (trace b)"
  by (rule filter_through_throws [OF effects_fields(5)]) (simp_all add: not_throw)

lemma open_queue_lifetime:
  "filter is_lifetime (trace (open_queue env cb d w)) = filter is_lifetime (trace w)"
proof -
  have f: "filter is_lifetime (trace (NAPI_CALL_fail env call line w')) = filter is_lifetime (trace w')"
    for call line w'
    by (rule effects_lifetime) simp
  show ?thesis
    by (simp add: open_queue_def Let_def log_event_def f)
qed

lemma open_fn_lifetime:
  "filter is_lifetime (trace (open_fn env info w)) = filter is_lifetime (trace w)"
proof (cases "open_validate env info w")
  case (Returned w')
  then show ?thesis
    using effects_lifetime [OF open_validate_Returned(1) [OF Returned]] by (simp add: open_fn_def)
next
  case (Next d w')
  then show ?thesis
    using effects_lifetime [OF open_validate_Next(1) [OF Next]]
    by (simp add: open_fn_def open_queue_lifetime)
qed







text \<open>
  Claim C5, as amended. For a request that was queued, when the N-API calls return
  \<^verbatim>\<open>napi_ok\<close> and the callback returns normally: the heap record is freed once, before
  the callback is called (the completion works on a copy); the callback is called once;
  the reference to it is deleted once, after the call.
\<close>

theorem record_freed_first_reference_deleted_last:
  assumes "runtime_ok env" and "callback_throws env = None"
    and "queued (open_fn env info initial_world)"
  shows "\<exists>args. filter is_lifetime (trace (snd (lifecycle env info))) =
           [E_free, E_call_function (info ! 3) args, E_delete_reference]"
proof -
  from assms(3) obtain d' w2 where
    l: "snd (lifecycle env info) = open_complete env (async_status env) d' w2"
    and c: "d_callback_ref d' = Some (info ! 3)"
    and p: "pending w2 = None"
    and f: "filter (\<lambda>e. \<not> is_syscall e) (trace w2) =
              filter (\<lambda>e. \<not> is_syscall e) (trace (open_fn env info initial_world))"
    by (rule lifecycle_queued)
  have "filter is_lifetime (trace w2) = filter is_lifetime (trace (open_fn env info initial_world))"
    by (rule not_syscall_lifetime [OF f])
  also have "\<dots> = []"
    using open_fn_lifetime [of env info initial_world] by (simp add: initial_world_def)
  finally have n: "filter is_lifetime (trace w2) = []" .
  have "\<not> raised w2" using p by (simp add: raised_def)
  from open_complete_ok [OF assms(1) this c] obtain args where
    "trace (open_complete env (async_status env) d' w2) =
       trace w2 @ E_free # E_call_function (info ! 3) args #
         (if callback_throws env = None then [E_delete_reference, E_delete_async_work] else [])"
    by blast
  then have "filter is_lifetime (trace (snd (lifecycle env info))) =
           [E_free, E_call_function (info ! 3) args, E_delete_reference]"
    using l n assms(2) by simp
  then show ?thesis by blast
qed

lemma callback_returns_linux: "callback_throws linux_env = None"
  by (simp add: linux_env_def)

theorem record_freed_first_reference_deleted_last_witness:
  "runtime_ok linux_env \<and> callback_throws linux_env = None \<and>
   queued (open_fn linux_env eth0_request initial_world) \<and>
   (\<exists>args. filter is_lifetime (trace (snd (lifecycle linux_env eth0_request))) =
           [E_free, E_call_function (JS_function 0) args, E_delete_reference])"
proof -
  have q: "queued (open_fn linux_env eth0_request initial_world)" by code_simp
  show ?thesis
    using record_freed_first_reference_deleted_last [OF runtime_ok_linux callback_returns_linux q]
      runtime_ok_linux callback_returns_linux q
    by (simp add: eth0_request_def)
qed

text \<open>
  Claim C5 as stated fails on every completed request: the heap record is freed at line
  306, before the callback is called at line 337.
\<close>

theorem record_freed_before_callback_counterexample:
  "filter is_lifetime (trace (snd (lifecycle linux_env plain_request))) =
     [E_free,
      E_call_function (JS_function 0) [Some JS_null, Some (JS_number (Finite 3))],
      E_delete_reference]"
  by code_simp

subsection \<open>Binding\<close>

lemma bind_is_syscall: "is_bind e \<Longrightarrow> is_syscall e"
  by (cases e) simp_all

lemma syscalls_binds:
  "filter is_syscall xs = filter is_syscall ys \<Longrightarrow> filter is_bind xs = filter is_bind ys"
  by (rule filter_narrow [of is_syscall]) (simp_all add: bind_is_syscall)

lemma napi_call_function_syscalls:
  assumes "napi_call_function env l f args w = (st, w')"
  shows "filter is_syscall (trace w') = filter is_syscall (trace w)"
    and "memory_fault w' = memory_fault w"
  using assms
  by (auto simp: napi_call_function_def log_event_def split: if_splits option.splits)

lemma syscalls_napi_call_error [simp]:
  "filter is_syscall (trace (napi_call_error env st call line w)) = filter is_syscall (trace w)"
  by (rule effects_syscalls) simp

lemma fault_napi_call_error [simp]:
  "memory_fault (napi_call_error env st call line w) = memory_fault w"
  by (rule effects_fields(4)) simp

lemma open_complete_callback_syscalls:
  "filter is_syscall (trace (open_complete_callback env d args w)) = filter is_syscall (trace w)"
  "memory_fault (open_complete_callback env d args w) = memory_fault w"
proof -
  show "filter is_syscall (trace (open_complete_callback env d args w)) = filter is_syscall (trace w)"
  proof (cases "d_callback_ref d")
    case None
    then show ?thesis by (simp add: open_complete_callback_def)
  next
    case (Some cb)
    obtain st w1 where cf: "napi_call_function env 337 cb args w = (st, w1)"
      by (cases "napi_call_function env 337 cb args w")
    show ?thesis
      using napi_call_function_syscalls(1) [OF cf]
      by (simp add: open_complete_callback_def Some cf Let_def log_event_def)
  qed
  show "memory_fault (open_complete_callback env d args w) = memory_fault w"
  proof (cases "d_callback_ref d")
    case None
    then show ?thesis by (simp add: open_complete_callback_def)
  next
    case (Some cb)
    obtain st w1 where cf: "napi_call_function env 337 cb args w = (st, w1)"
      by (cases "napi_call_function env 337 cb args w")
    show ?thesis
      using napi_call_function_syscalls(2) [OF cf]
      by (simp add: open_complete_callback_def Some cf Let_def log_event_def)
  qed
qed

lemma open_complete_syscalls:
  "filter is_syscall (trace (open_complete env st d w)) = filter is_syscall (trace w)"
  "memory_fault (open_complete env st d w) = memory_fault w"
proof -
  let ?w0 = "log_event E_free (w\<lparr>heap := None\<rparr>)"
  obtain err w1 where se: "system_error env (d_syscall d) (d_errno d) ?w0 = (err, w1)"
    by (cases "system_error env (d_syscall d) (d_errno d) ?w0")
  have e: "effects w1 = effects ?w0"
    using effects_system_error [of env "d_syscall d" "d_errno d" ?w0] se by simp
  have b: "filter is_syscall (trace ?w0) = filter is_syscall (trace w)"
    "memory_fault ?w0 = memory_fault w"
    by (simp_all add: log_event_def)
  have c: "filter is_syscall (trace w1) = filter is_syscall (trace w)"
    using effects_syscalls [OF e] b by simp
  have m: "memory_fault w1 = memory_fault w"
    using effects_fields(4) [OF e] b by simp
  show "filter is_syscall (trace (open_complete env st d w)) = filter is_syscall (trace w)"
    by (simp add: open_complete_def Let_def se open_complete_callback_syscalls b c)
  show "memory_fault (open_complete env st d w) = memory_fault w"
    by (simp add: open_complete_def Let_def se open_complete_callback_syscalls b m)
qed

lemma binds_do:
  "do_socket env f p w = (r, w') \<Longrightarrow> filter is_bind (trace w') = filter is_bind (trace w)"
  "do_setsockopt env s opt w = (r, w') \<Longrightarrow> filter is_bind (trace w') = filter is_bind (trace w)"
  "do_if_nametoindex env n w = (r, w') \<Longrightarrow> filter is_bind (trace w') = filter is_bind (trace w)"
  by (auto simp: do_socket_def do_setsockopt_def do_if_nametoindex_def log_event_def
      split: prod.splits)

lemma binds_fail [simp]:
  "filter is_bind (trace (snd (open_execute_fail env d sc e w))) = filter is_bind (trace w)"
  "d_sockaddr_size (fst (open_execute_fail env d sc e w)) = d_sockaddr_size d"
  by (simp_all add: open_execute_fail_def Let_def do_close_def log_event_def)

lemma open_execute_bind_none:
  "d_sockaddr_size d = 0 \<Longrightarrow>
   filter is_bind (trace (snd (open_execute_bind env d w))) = filter is_bind (trace w)"
  by (simp add: open_execute_bind_def)

lemma open_execute_interface_none:
  "d_sockaddr_size d = 0 \<Longrightarrow>
   filter is_bind (trace (snd (open_execute_interface env d w))) = filter is_bind (trace w)"
  by (auto simp: open_execute_interface_def Let_def open_execute_bind_none binds_do
      split: prod.splits platform.splits)

lemma open_execute_none:
  "d_sockaddr_size d = 0 \<Longrightarrow>
   filter is_bind (trace (snd (open_execute env d w))) = filter is_bind (trace w)"
  by (auto simp: open_execute_def Let_def open_execute_interface_none binds_do
      split: prod.splits option.splits)

subsection \<open>What the checks store\<close>

lemma open_from_address_absent:
  assumes "open_from_address env f v d w = Next d' w'" and "v = JS_null \<or> v = JS_undefined"
  shows "d_sockaddr_size d' = 0"
  using assms by (auto simp: open_from_address_def split: if_splits)

lemma open_from_address_accepts_absent:
  assumes "v = JS_null \<or> v = JS_undefined" and "\<not> napi_failed env 399"
  shows "open_from_address env f v d w = Next (d\<lparr>d_sockaddr_size := 0\<rparr>) w"
  using assms by (auto simp: open_from_address_def)

lemma cstring_zeroed: "cstring (fst (napi_get_value_string_latin1 [] 42)) = []"
  by (simp add: latin1_short cstring_def)

lemma open_from_address_empty:
  assumes "fst (inet_pton env f []) = 0" and "\<not> napi_failed env 399" and "\<not> napi_failed env 412"
  shows "\<exists>m. open_from_address env f (JS_string []) d w =
           Returned (throw_type_error env m (w\<lparr>errno := fst (snd (inet_pton env f []))\<rparr>))"
proof -
  obtain buf c where bc: "napi_get_value_string_latin1 (latin1_of []) 42 = (buf, c)"
    by (cases "napi_get_value_string_latin1 (latin1_of []) 42")
  have cs: "cstring buf = []" and c0: "c = 0"
    using bc cstring_zeroed latin1_copied [of "[]" 42] by (simp_all add: latin1_of_def)
  obtain r e b where ip: "inet_pton env f [] = (r, e, b)"
    by (cases "inet_pton env f []") auto
  show ?thesis
    using assms bc cs c0 ip
    by (auto simp: open_from_address_def Let_def)
qed

lemma interface_copy:
  assumes "length s \<le> n"
  shows "memcpy (bzero (n + 1)) (fst (napi_get_value_string_latin1 s (n + 2))) (length s + 1) =
           Some (s @ replicate (n + 1 - length s) NUL)"
proof -
  have l: "napi_get_value_string_latin1 s (n + 2) = (s @ replicate (n + 2 - length s) NUL, length s)"
    using assms by (intro latin1_short) simp
  have r: "replicate (n + 2 - length s) NUL = NUL # replicate (n + 1 - length s) NUL"
    using assms by (simp add: Suc_diff_le)
  have "n + 1 - length s = Suc (n - length s)" using assms by simp
  then have k: "replicate (n + 1 - length s) NUL = NUL # replicate (n - length s) NUL"
    by simp
  have "memcpy (bzero (n + 1)) (fst (napi_get_value_string_latin1 s (n + 2))) (length s + 1) =
        memcpy (replicate (n + 1) NUL) (s @ NUL # replicate (n + 1 - length s) NUL) (length s + 1)"
    by (simp only: l r fst_conv bzero_def)
  also have "\<dots> = Some (s @ NUL # replicate (n - length s) NUL)"
    using assms by (simp add: memcpy_def)
  finally show ?thesis by (simp only: k)
qed

lemma open_source_interface_string:
  assumes "open_source_interface env (JS_string s) d w = Next d' w'"
    and "d_interface d = bzero (IFNAMSIZ env + 1)"
  shows "length s \<le> IFNAMSIZ env" and "d_interface_length d' = length s"
    and "memcpy (bzero (IFNAMSIZ env + 1))
           (fst (napi_get_value_string_latin1 (latin1_of s) (IFNAMSIZ env + 2))) (length s + 1) =
         Some (d_interface d')"
    and "d_interface d' = latin1_of s @ replicate (IFNAMSIZ env + 1 - length s) NUL"
proof -
  show le: "length s \<le> IFNAMSIZ env"
    using open_source_interface_Next [OF assms(1)] by simp
  then have l: "napi_get_value_string_latin1 (latin1_of s) (IFNAMSIZ env + 2) =
      (latin1_of s @ replicate (IFNAMSIZ env + 2 - length s) NUL, length s)"
    using latin1_short [of "latin1_of s" "IFNAMSIZ env + 2"] by simp
  have c: "memcpy (bzero (IFNAMSIZ env + 1))
           (fst (napi_get_value_string_latin1 (latin1_of s) (IFNAMSIZ env + 2))) (length s + 1) =
         Some (latin1_of s @ replicate (IFNAMSIZ env + 1 - length s) NUL)"
    using interface_copy [of "latin1_of s" "IFNAMSIZ env"] le by simp
  have d: "d' = d\<lparr>d_interface := latin1_of s @ replicate (IFNAMSIZ env + 1 - length s) NUL,
                   d_interface_length := length s\<rparr>"
    using assms c le l
    by (auto simp: open_source_interface_def split: if_splits option.splits)
  show "d_interface_length d' = length s" using d by simp
  show "d_interface d' = latin1_of s @ replicate (IFNAMSIZ env + 1 - length s) NUL"
    using d by simp
  then show "memcpy (bzero (IFNAMSIZ env + 1))
           (fst (napi_get_value_string_latin1 (latin1_of s) (IFNAMSIZ env + 2))) (length s + 1) =
         Some (d_interface d')"
    using c by simp
qed

lemma open_source_interface_size:
  assumes "open_source_interface env v d w = Next d' w'"
  shows "d_sockaddr_size d' = d_sockaddr_size d"
  using assms
  by (auto simp: open_source_interface_def Let_def split: if_splits option.splits prod.splits)

lemma open_validate_record:
  assumes "open_validate env info w = Next d w'"
  shows "info ! 1 = JS_null \<or> info ! 1 = JS_undefined \<Longrightarrow> d_sockaddr_size d = 0"
    and "info ! 2 = JS_string s \<Longrightarrow>
           length s \<le> IFNAMSIZ env \<and> d_interface_length d = length s \<and>
           memcpy (bzero (IFNAMSIZ env + 1))
             (fst (napi_get_value_string_latin1 (latin1_of s) (IFNAMSIZ env + 2))) (length s + 1) =
           Some (d_interface d) \<and>
           d_interface d = latin1_of s @ replicate (IFNAMSIZ env + 1 - length s) NUL"
proof -
  from assms obtain f d1 w1 d2 w2 w3 where
    1: "open_family env (info ! 0) (zeroed_data env) w = Next (f, d1) w1"
    and 2: "open_from_address env f (info ! 1) d1 w1 = Next d2 w2"
    and 3: "open_source_interface env (info ! 2) d2 w2 = Next d w3"
    by (rule open_validate_NextE)
  show "d_sockaddr_size d = 0" if "info ! 1 = JS_null \<or> info ! 1 = JS_undefined"
    using open_from_address_absent [OF 2 that] open_source_interface_size [OF 3] by simp
  have z: "d_interface d2 = bzero (IFNAMSIZ env + 1)"
    using open_family_Next(4) [OF 1] open_from_address_Next(2) [OF 2]
    by (simp add: zeroed_data_def)
  show "length s \<le> IFNAMSIZ env \<and> d_interface_length d = length s \<and>
           memcpy (bzero (IFNAMSIZ env + 1))
             (fst (napi_get_value_string_latin1 (latin1_of s) (IFNAMSIZ env + 2))) (length s + 1) =
           Some (d_interface d) \<and>
           d_interface d = latin1_of s @ replicate (IFNAMSIZ env + 1 - length s) NUL"
    if "info ! 2 = JS_string s"
    using open_source_interface_string [OF 3 [unfolded that] z] by simp
qed

lemma open_fn_queued_record:
  assumes "queued (open_fn env info w)" and "\<not> queued w"
  obtains d w' where "open_validate env info w = Next d w'"
    "heap (open_fn env info w) =
       Some (d\<lparr>d_callback_ref := Some (info ! 3), d_async_work := Some Async_work\<rparr>)"
proof -
  obtain d w' where n: "open_validate env info w = Next d w'"
    using assms effects_fields(3) [OF open_validate_Returned(1)]
    by (cases "open_validate env info w") (auto simp: open_fn_def)
  have q: "\<not> queued w'"
    using effects_fields(3) [OF open_validate_Next(1) [OF n]] assms(2) by simp
  have "heap (open_fn env info w) =
       Some (d\<lparr>d_callback_ref := Some (info ! 3), d_async_work := Some Async_work\<rparr>)"
    using open_queue_queued(1) [OF _ q, of env "info ! 3" d] assms(1) n
    by (simp add: open_fn_def)
  with n show ?thesis by (rule that)
qed

lemma open_fn_no_binds: "filter is_bind (trace (open_fn env info initial_world)) = []"
  using syscalls_binds [OF open_fn_syscalls [of env info initial_world]]
  by (simp add: initial_world_def)

lemma absent_address_no_bind:
  assumes "info ! 1 = JS_null \<or> info ! 1 = JS_undefined"
  shows "filter is_bind (trace (snd (lifecycle env info))) = []"
proof (cases "queued (open_fn env info initial_world)")
  case False
  then show ?thesis by (simp add: lifecycle_not_queued open_fn_no_binds)
next
  case True
  let ?w1 = "open_fn env info initial_world"
  have nq: "\<not> queued initial_world" by (simp add: initial_world_def)
  from True nq obtain d w' where n: "open_validate env info initial_world = Next d w'"
    and h: "heap ?w1 = Some (d\<lparr>d_callback_ref := Some (info ! 3), d_async_work := Some Async_work\<rparr>)"
    by (rule open_fn_queued_record)
  let ?h = "d\<lparr>d_callback_ref := Some (info ! 3), d_async_work := Some Async_work\<rparr>"
  have size: "d_sockaddr_size ?h = 0"
    using open_validate_record(1) [OF n assms] by simp
  have b1: "filter is_bind (trace (?w1\<lparr>pending := None\<rparr>)) = []"
    by (simp add: open_fn_no_binds)
  show ?thesis
  proof (cases "async_status env = napi_ok")
    case ok: True
    obtain d' w2 where e: "open_execute env ?h (?w1\<lparr>pending := None\<rparr>) = (d', w2)"
      by (cases "open_execute env ?h (?w1\<lparr>pending := None\<rparr>)")
    have b2: "filter is_bind (trace (w2\<lparr>heap := Some d'\<rparr>)) = []"
      using open_execute_none [OF size, of env "?w1\<lparr>pending := None\<rparr>"] e b1 by simp
    have l: "snd (lifecycle env info) = open_complete env napi_ok d' (w2\<lparr>heap := Some d'\<rparr>)"
      using True h e ok by (simp add: lifecycle_def Let_def)
    show ?thesis
      unfolding l using syscalls_binds [OF open_complete_syscalls(1)] b2 by simp
  next
    case False
    have l: "snd (lifecycle env info) =
               open_complete env (async_status env) ?h (?w1\<lparr>pending := None\<rparr>)"
      using True h False by (simp add: lifecycle_def Let_def)
    show ?thesis
      unfolding l using syscalls_binds [OF open_complete_syscalls(1)] b1 by simp
  qed
qed

text \<open>
  Claim C6, as amended. When the address argument is \<^verbatim>\<open>null\<close> or \<^verbatim>\<open>undefined\<close>, no
  \<^verbatim>\<open>bind\<close> is made in the whole run, and the address block accepts the value and sets
  the address size to 0 (given that its \<^verbatim>\<open>napi_typeof\<close> call returns \<^verbatim>\<open>napi_ok\<close>). The
  empty string is not such a value: it is a string, its text goes to \<^verbatim>\<open>inet_pton\<close>, and
  when \<^verbatim>\<open>inet_pton\<close> returns 0 for the empty text the block throws a type error and
  returns.
\<close>

theorem absent_address_means_no_bind:
  "((info ! 1 = JS_null \<or> info ! 1 = JS_undefined) \<longrightarrow>
      filter is_bind (trace (snd (lifecycle env info))) = []) \<and>
   ((v = JS_null \<or> v = JS_undefined) \<and> \<not> napi_failed env 399 \<longrightarrow>
      open_from_address env f v d w = Next (d\<lparr>d_sockaddr_size := 0\<rparr>) w) \<and>
   (fst (inet_pton env f []) = 0 \<and> \<not> napi_failed env 399 \<and> \<not> napi_failed env 412 \<longrightarrow>
      (\<exists>m. open_from_address env f (JS_string []) d w =
             Returned (throw_type_error env m (w\<lparr>errno := fst (snd (inet_pton env f []))\<rparr>))))"
  using absent_address_no_bind open_from_address_accepts_absent open_from_address_empty
  by blast

lemma napi_works_linux: "\<not> napi_failed linux_env line"
  by (simp add: napi_failed_def linux_env_def)

lemma empty_text_linux: "fst (inet_pton linux_env 2 []) = 0"
  by (simp add: linux_env_def)

theorem absent_address_means_no_bind_witness:
  "plain_request ! 1 = JS_null \<and>
   filter is_bind (trace (snd (lifecycle linux_env plain_request))) = [] \<and>
   \<not> napi_failed linux_env 399 \<and>
   open_from_address linux_env 2 JS_null (zeroed_data linux_env) initial_world =
     Next ((zeroed_data linux_env)\<lparr>d_sockaddr_size := 0\<rparr>) initial_world \<and>
   fst (inet_pton linux_env 2 []) = 0 \<and> \<not> napi_failed linux_env 412 \<and>
   (\<exists>m. open_from_address linux_env 2 (JS_string []) (zeroed_data linux_env) initial_world =
          Returned (throw_type_error linux_env m
                      (initial_world\<lparr>errno := fst (snd (inet_pton linux_env 2 []))\<rparr>)))"
proof -
  have p: "plain_request ! 1 = JS_null" by (simp add: plain_request_def)
  show ?thesis
    using absent_address_means_no_bind [where info = plain_request and env = linux_env
        and v = JS_null and f = 2 and d = "zeroed_data linux_env" and w = initial_world]
      p napi_works_linux empty_text_linux
    by blast
qed

text \<open>
  Claim C6 as stated fails for the empty string, the value that is present and empty:
  the call is refused with a type error and nothing is queued, where a \<^verbatim>\<open>null\<close> address
  is accepted.
\<close>

theorem empty_address_counterexample:
  "fst (lifecycle linux_env empty_address_request) =
     Some (JS_error TypeError None (Utf8 ''Invalid IPv4 from address: '') None None) \<and>
   \<not> queued (open_fn linux_env empty_address_request initial_world) \<and>
   queued (open_fn linux_env plain_request initial_world)"
  by code_simp

end
